theory Spec2Isabelle
  imports Complex_Main "HOL-Library.Word"
begin

unbundle bit_operations_syntax

section \<open>C and GLib base types\<close>

text \<open>
  PNMixer keeps its preferences in one global \<^verbatim>\<open>GKeyFile *keyFile\<close> (prefs.c) and
  reads and writes it through the typed GLib accessors. The preferences code itself is
  thin: what a getter returns is decided by what the GLib call hands back. The GLib
  key-file API is therefore modelled first, from its documented behaviour, and the
  functions of prefs.c and callbacks.c are then transcribed on top of it.

  \<^item> \<^verbatim>\<open>gint\<close> is a 32-bit word, read signed with \<open>sint\<close>.
  \<^item> \<^verbatim>\<open>gdouble\<close> is modelled by \<open>real\<close>: the program only stores doubles, compares
    them with 0 and 1 and hands them on. NaN and the infinities have no counterpart, so
    what is proved of doubles is proved of doubles that are finite numbers.
  \<^item> a \<^verbatim>\<open>gchar *\<close> that may be \<^verbatim>\<open>NULL\<close> is a \<open>string option\<close>.
\<close>

type_synonym gint = "32 word"
type_synonym guint = "32 word"
type_synonym gdouble = real

text \<open>
  Text conversion of doubles (\<^verbatim>\<open>g_ascii_strtod\<close>, \<^verbatim>\<open>g_ascii_dtostr\<close>), the keymap and the
  accelerator codec of GTK and the X keysym table are services of the platform. They are
  parameters of the model: every function that reaches one of them takes the record below.
\<close>

record platform =
  parse_value_as_double :: "string \<Rightarrow> gdouble option"
    \<comment> \<open>\<^verbatim>\<open>g_ascii_strtod\<close> on the whole value; \<open>None\<close> when it does not parse to the end\<close>
  ascii_dtostr :: "gdouble \<Rightarrow> string"
    \<comment> \<open>\<^verbatim>\<open>g_ascii_dtostr\<close>, the text \<^verbatim>\<open>g_key_file_set_double\<close> stores\<close>
  keymap_translate_keyboard_state :: "guint \<Rightarrow> guint \<Rightarrow> guint \<Rightarrow> guint \<times> guint"
    \<comment> \<open>hardware keycode, state, group to (keyval, consumed modifiers)\<close>
  accelerator_get_default_mod_mask :: guint
  accelerator_name :: "guint \<Rightarrow> guint \<Rightarrow> string"
    \<comment> \<open>\<^verbatim>\<open>gtk_accelerator_name (keyval, mods)\<close>\<close>
  accelerator_parse :: "string \<Rightarrow> guint \<times> guint"
    \<comment> \<open>\<^verbatim>\<open>gtk_accelerator_parse\<close>: (keysym, mods), keysym 0 when the text does not parse\<close>
  XKeysymToKeycode :: "guint \<Rightarrow> gint"
  WITH_GTK3 :: bool
    \<comment> \<open>the build: whether \<^verbatim>\<open>WITH_GTK3\<close> is defined\<close>

section \<open>The GLib key file\<close>

datatype GKeyFileError =
    G_KEY_FILE_ERROR_UNKNOWN_ENCODING
  | G_KEY_FILE_ERROR_PARSE
  | G_KEY_FILE_ERROR_KEY_NOT_FOUND
  | G_KEY_FILE_ERROR_GROUP_NOT_FOUND
  | G_KEY_FILE_ERROR_INVALID_VALUE

text \<open>
  A key file is a list of groups, each a name with its key/value pairs; values are kept
  as the raw text of the file. As in GLib, the most recently added group and pair come
  first, so a lookup finds the latest pair of a key.
\<close>

type_synonym GKeyFileGroup = "string \<times> (string \<times> string) list"
type_synonym GKeyFile = "GKeyFileGroup list"

definition g_ascii_isspace :: "char \<Rightarrow> bool" where
  "g_ascii_isspace c \<longleftrightarrow> c \<in> {CHR '' '', CHR 0x09, CHR 0x0A, CHR 0x0C, CHR 0x0D}"

definition isspace :: "char \<Rightarrow> bool" where
  "isspace c \<longleftrightarrow> g_ascii_isspace c \<or> c = CHR 0x0B"

definition isdigit :: "char \<Rightarrow> bool" where
  "isdigit c \<longleftrightarrow> 48 \<le> (of_char c :: nat) \<and> (of_char c :: nat) \<le> 57"

definition digit_val :: "char \<Rightarrow> int" where
  "digit_val c = int (of_char c) - 48"

fun strtol_digits :: "int \<Rightarrow> string \<Rightarrow> int \<times> string" where
  "strtol_digits acc [] = (acc, [])"
| "strtol_digits acc (c # cs) =
     (if isdigit c then strtol_digits (acc * 10 + digit_val c) cs else (acc, c # cs))"

text \<open>
  \<^verbatim>\<open>strtol (s, &end, 10)\<close>: the value and the unread rest. With no digit to convert the
  value is 0 and the rest is the whole input. The value is not saturated here: the caller
  below refuses everything outside \<^verbatim>\<open>gint\<close>, which covers \<^verbatim>\<open>ERANGE\<close>.
\<close>

definition strtol :: "string \<Rightarrow> int \<times> string" where
  "strtol s =
     (let t = dropWhile isspace s;
          neg = (t \<noteq> [] \<and> hd t = CHR ''-'');
          ds = (if t \<noteq> [] \<and> (hd t = CHR ''-'' \<or> hd t = CHR ''+'') then tl t else t)
      in if ds \<noteq> [] \<and> isdigit (hd ds)
         then (let (n, rest) = strtol_digits 0 ds in (if neg then - n else n, rest))
         else (0, s))"

definition g_key_file_parse_value_as_integer :: "string \<Rightarrow> GKeyFileError + gint" where
  "g_key_file_parse_value_as_integer val =
     (let (long_value, eof_int) = strtol val
      in if val = [] \<or> (eof_int \<noteq> [] \<and> \<not> g_ascii_isspace (hd eof_int))
         then Inl G_KEY_FILE_ERROR_INVALID_VALUE
         else if long_value < - (2 ^ 31) \<or> 2 ^ 31 \<le> long_value
         then Inl G_KEY_FILE_ERROR_INVALID_VALUE
         else Inr (word_of_int long_value))"

definition g_key_file_parse_value_as_boolean :: "string \<Rightarrow> GKeyFileError + bool" where
  "g_key_file_parse_value_as_boolean val =
     (let v = rev (dropWhile g_ascii_isspace (rev val))
      in if v = ''true'' \<or> v = ''1'' then Inr True
         else if v = ''false'' \<or> v = ''0'' then Inr False
         else Inl G_KEY_FILE_ERROR_INVALID_VALUE)"

definition unescape_char :: "char \<Rightarrow> char option" where
  "unescape_char c =
     (if c = CHR ''s'' then Some CHR '' ''
      else if c = CHR ''n'' then Some CHR 0x0A
      else if c = CHR ''t'' then Some CHR 0x09
      else if c = CHR ''r'' then Some CHR 0x0D
      else if c = CHR 0x5C then Some CHR 0x5C
      else None)"

fun g_key_file_parse_value_as_string :: "string \<Rightarrow> GKeyFileError + string" where
  "g_key_file_parse_value_as_string [] = Inr []"
| "g_key_file_parse_value_as_string [c] =
     (if c = CHR 0x5C then Inl G_KEY_FILE_ERROR_INVALID_VALUE else Inr [c])"
| "g_key_file_parse_value_as_string (c # d # cs) =
     (if c = CHR 0x5C
      then (case unescape_char d of
              None \<Rightarrow> Inl G_KEY_FILE_ERROR_INVALID_VALUE
            | Some e \<Rightarrow> map_sum id ((#) e) (g_key_file_parse_value_as_string cs))
      else map_sum id ((#) c) (g_key_file_parse_value_as_string (d # cs)))"

text \<open>\<^verbatim>\<open>g_utf8_validate\<close> on a C string: the bytes form well-formed UTF-8, with no NUL.\<close>

definition utf8_cont :: "char \<Rightarrow> bool" where
  "utf8_cont c \<longleftrightarrow> 0x80 \<le> (of_char c :: nat) \<and> (of_char c :: nat) \<le> 0xBF"

fun g_utf8_validate :: "string \<Rightarrow> bool" where
  "g_utf8_validate [] = True"
| "g_utf8_validate (a # s) =
     (let x = (of_char a :: nat) in
      if x = 0 then False
      else if x < 0x80 then g_utf8_validate s
      else if 0xC2 \<le> x \<and> x \<le> 0xDF then
        (case s of b # s1 \<Rightarrow> utf8_cont b \<and> g_utf8_validate s1 | _ \<Rightarrow> False)
      else if 0xE0 \<le> x \<and> x \<le> 0xEF then
        (case s of
           b # c # s2 \<Rightarrow>
             utf8_cont b \<and> utf8_cont c
             \<and> (x = 0xE0 \<longrightarrow> 0xA0 \<le> (of_char b :: nat))
             \<and> (x = 0xED \<longrightarrow> (of_char b :: nat) \<le> 0x9F)
             \<and> g_utf8_validate s2
         | _ \<Rightarrow> False)
      else if 0xF0 \<le> x \<and> x \<le> 0xF4 then
        (case s of
           b # c # d # s3 \<Rightarrow>
             utf8_cont b \<and> utf8_cont c \<and> utf8_cont d
             \<and> (x = 0xF0 \<longrightarrow> 0x90 \<le> (of_char b :: nat))
             \<and> (x = 0xF4 \<longrightarrow> (of_char b :: nat) \<le> 0x8F)
             \<and> g_utf8_validate s3
         | _ \<Rightarrow> False)
      else False)"

definition g_key_file_get_value :: "GKeyFile \<Rightarrow> string \<Rightarrow> string \<Rightarrow> GKeyFileError + string" where
  "g_key_file_get_value kf group_name key =
     (case map_of kf group_name of
        None \<Rightarrow> Inl G_KEY_FILE_ERROR_GROUP_NOT_FOUND
      | Some pairs \<Rightarrow>
          (case map_of pairs key of
             None \<Rightarrow> Inl G_KEY_FILE_ERROR_KEY_NOT_FOUND
           | Some v \<Rightarrow> Inr v))"

text \<open>
  The typed getters as C sees them: the returned value together with what the call left
  in \<^verbatim>\<open>*error\<close>. With a \<^verbatim>\<open>NULL\<close> key file every GLib accessor leaves through
  \<^verbatim>\<open>g_return_val_if_fail (key_file != NULL, ...)\<close>: it logs a critical warning, returns the
  fixed value of that macro and does not touch \<^verbatim>\<open>*error\<close>.
\<close>

definition g_key_file_get_boolean ::
  "GKeyFile option \<Rightarrow> string \<Rightarrow> string \<Rightarrow> bool \<times> GKeyFileError option" where
  "g_key_file_get_boolean key_file group_name key =
     (case key_file of
        None \<Rightarrow> (False, None)
      | Some kf \<Rightarrow>
          (case g_key_file_get_value kf group_name key of
             Inl e \<Rightarrow> (False, Some e)
           | Inr v \<Rightarrow>
               (case g_key_file_parse_value_as_boolean v of
                  Inl e \<Rightarrow> (False, Some e)
                | Inr b \<Rightarrow> (b, None))))"

definition g_key_file_get_integer ::
  "GKeyFile option \<Rightarrow> string \<Rightarrow> string \<Rightarrow> gint \<times> GKeyFileError option" where
  "g_key_file_get_integer key_file group_name key =
     (case key_file of
        None \<Rightarrow> (- 1, None)
      | Some kf \<Rightarrow>
          (case g_key_file_get_value kf group_name key of
             Inl e \<Rightarrow> (- 1, Some e)
           | Inr v \<Rightarrow>
               (case g_key_file_parse_value_as_integer v of
                  Inl e \<Rightarrow> (0, Some e)
                | Inr i \<Rightarrow> (i, None))))"

definition g_key_file_get_double ::
  "platform \<Rightarrow> GKeyFile option \<Rightarrow> string \<Rightarrow> string \<Rightarrow> gdouble \<times> GKeyFileError option" where
  "g_key_file_get_double X key_file group_name key =
     (case key_file of
        None \<Rightarrow> (- 1, None)
      | Some kf \<Rightarrow>
          (case g_key_file_get_value kf group_name key of
             Inl e \<Rightarrow> (- 1, Some e)
           | Inr v \<Rightarrow>
               (case parse_value_as_double X v of
                  None \<Rightarrow> (0, Some G_KEY_FILE_ERROR_INVALID_VALUE)
                | Some d \<Rightarrow> (d, None))))"

definition g_key_file_get_string ::
  "GKeyFile option \<Rightarrow> string \<Rightarrow> string \<Rightarrow> string option \<times> GKeyFileError option" where
  "g_key_file_get_string key_file group_name key =
     (case key_file of
        None \<Rightarrow> (None, None)
      | Some kf \<Rightarrow>
          (case g_key_file_get_value kf group_name key of
             Inl e \<Rightarrow> (None, Some e)
           | Inr v \<Rightarrow>
               if \<not> g_utf8_validate v then (None, Some G_KEY_FILE_ERROR_UNKNOWN_ENCODING)
               else (case g_key_file_parse_value_as_string v of
                       Inl e \<Rightarrow> (None, Some e)
                     | Inr s \<Rightarrow> (Some s, None))))"

text \<open>
  A list value is split at the unescaped separator \<^verbatim>\<open>;\<close>. Text after the last separator
  is a piece of its own only when it is not empty.
\<close>

fun split_list_value :: "string \<Rightarrow> string \<Rightarrow> string list" where
  "split_list_value piece [] = (if piece = [] then [] else [piece])"
| "split_list_value piece (c # cs) =
     (if c = CHR '';'' then piece # split_list_value [] cs
      else split_list_value (piece @ [c]) cs)"

fun parse_doubles :: "platform \<Rightarrow> string list \<Rightarrow> gdouble list option" where
  "parse_doubles X [] = Some []"
| "parse_doubles X (p # ps) =
     (case parse_value_as_double X p of
        None \<Rightarrow> None
      | Some d \<Rightarrow> map_option ((#) d) (parse_doubles X ps))"

text \<open>
  \<^verbatim>\<open>g_key_file_get_double_list\<close> returns a freshly allocated array of as many doubles as
  the value has pieces, or \<^verbatim>\<open>NULL\<close>: for a \<^verbatim>\<open>NULL\<close> key file, a missing group or key, a
  piece that is not a number, and also for a value with no piece at all
  (\<^verbatim>\<open>g_new (gdouble, 0)\<close> is \<^verbatim>\<open>NULL\<close>). The array is the list; its length is what the call
  stores in \<^verbatim>\<open>*length\<close>.
\<close>

definition g_key_file_get_double_list ::
  "platform \<Rightarrow> GKeyFile option \<Rightarrow> string \<Rightarrow> string \<Rightarrow> gdouble list option" where
  "g_key_file_get_double_list X key_file group_name key =
     (case key_file of
        None \<Rightarrow> None
      | Some kf \<Rightarrow>
          (case g_key_file_get_value kf group_name key of
             Inl e \<Rightarrow> None
           | Inr v \<Rightarrow>
               (case parse_doubles X (split_list_value [] v) of
                  None \<Rightarrow> None
                | Some [] \<Rightarrow> None
                | Some ds \<Rightarrow> Some ds)))"

section \<open>prefs.c: the typed getters\<close>

definition prefs_get_boolean :: "GKeyFile option \<Rightarrow> string \<Rightarrow> bool \<Rightarrow> bool" where
  "prefs_get_boolean keyFile key def =
     (let (ret, error) = g_key_file_get_boolean keyFile ''PNMixer'' key
      in if error \<noteq> None then def else ret)"

definition prefs_get_integer :: "GKeyFile option \<Rightarrow> string \<Rightarrow> gint \<Rightarrow> gint" where
  "prefs_get_integer keyFile key def =
     (let (ret, error) = g_key_file_get_integer keyFile ''PNMixer'' key
      in if error \<noteq> None then def else ret)"

definition prefs_get_double :: "platform \<Rightarrow> GKeyFile option \<Rightarrow> string \<Rightarrow> gdouble \<Rightarrow> gdouble" where
  "prefs_get_double X keyFile key def =
     (let (ret, error) = g_key_file_get_double X keyFile ''PNMixer'' key
      in if error \<noteq> None then def else ret)"

definition prefs_get_string ::
  "GKeyFile option \<Rightarrow> string \<Rightarrow> string option \<Rightarrow> string option" where
  "prefs_get_string keyFile key def =
     (let (ret, error) = g_key_file_get_string keyFile ''PNMixer'' key
      in if error \<noteq> None then def else ret)"

definition prefs_get_channel :: "GKeyFile option \<Rightarrow> string option \<Rightarrow> string option" where
  "prefs_get_channel keyFile card_name =
     (case card_name of
        None \<Rightarrow> None
      | Some c \<Rightarrow> fst (g_key_file_get_string keyFile c ''Channel''))"

text \<open>
  \<^verbatim>\<open>prefs_get_vol_meter_colors\<close> clamps \<^verbatim>\<open>colors[0]\<close>, \<^verbatim>\<open>colors[1]\<close>, \<^verbatim>\<open>colors[2]\<close> in place
  (\<open>clamp_colors i n\<close> is the loop with \<open>n\<close> rounds to go, \<open>clamp_unit\<close> its two tests),
  whatever the length of the array GLib returned (the length it receives in \<^verbatim>\<open>numcols\<close>
  is never looked at). An index past the end of the array is an access outside the
  allocation: undefined behaviour in C, the fault \<open>OutOfBounds\<close> here.
\<close>

datatype fault = OutOfBounds | IndeterminateValue

definition clamp_unit :: "gdouble \<Rightarrow> gdouble" where
  "clamp_unit c = (let c1 = (if c < 0 then 0 else c) in if c1 > 1 then 1 else c1)"

fun clamp_colors :: "nat \<Rightarrow> nat \<Rightarrow> gdouble list \<Rightarrow> fault + gdouble list" where
  "clamp_colors i 0 colors = Inr colors"
| "clamp_colors i (Suc n) colors =
     (if length colors \<le> i then Inl OutOfBounds
      else clamp_colors (Suc i) n (colors[i := clamp_unit (colors ! i)]))"

definition default_vol_meter_colors :: "gdouble list" where
  "default_vol_meter_colors = [0.909803921569, 0.43137254902, 0.43137254902]"

definition prefs_get_vol_meter_colors :: "platform \<Rightarrow> GKeyFile option \<Rightarrow> fault + gdouble list" where
  "prefs_get_vol_meter_colors X keyFile =
     (let colors =
            (case g_key_file_get_double_list X keyFile ''PNMixer'' ''VolMeterColor'' of
               None \<Rightarrow> default_vol_meter_colors
             | Some cs \<Rightarrow> cs)
      in clamp_colors 0 3 colors)"

section \<open>The GLib key file: setters\<close>

definition g_ascii_iscntrl :: "char \<Rightarrow> bool" where
  "g_ascii_iscntrl c \<longleftrightarrow> (of_char c :: nat) < 0x20 \<or> (of_char c :: nat) = 0x7F"

definition g_key_file_is_group_name :: "string \<Rightarrow> bool" where
  "g_key_file_is_group_name name \<longleftrightarrow>
     name \<noteq> [] \<and> list_all (\<lambda>c. c \<noteq> CHR '']'' \<and> c \<noteq> CHR ''['' \<and> \<not> g_ascii_iscntrl c) name"

text \<open>
  Key names: not empty, none of \<^verbatim>\<open>=\<close>, \<^verbatim>\<open>[\<close>, \<^verbatim>\<open>]\<close>, no space first or last. GLib also
  accepts a locale tag (\<^verbatim>\<open>Name[de]\<close>); PNMixer has no such key and the model refuses them.
\<close>

definition g_key_file_is_key_name :: "string \<Rightarrow> bool" where
  "g_key_file_is_key_name name \<longleftrightarrow>
     name \<noteq> []
     \<and> list_all (\<lambda>c. c \<noteq> CHR ''='' \<and> c \<noteq> CHR ''['' \<and> c \<noteq> CHR '']'') name
     \<and> hd name \<noteq> CHR '' '' \<and> last name \<noteq> CHR '' ''"

text \<open>
  \<^verbatim>\<open>g_key_file_set_value\<close> overwrites the pair a lookup of the key finds, and adds a new
  pair (or a new group) in front otherwise.
\<close>

fun set_pair :: "string \<Rightarrow> string \<Rightarrow> (string \<times> string) list \<Rightarrow> (string \<times> string) list" where
  "set_pair key val [] = []"
| "set_pair key val ((k, v) # ps) =
     (if k = key then (k, val) # ps else (k, v) # set_pair key val ps)"

fun set_in_group :: "string \<Rightarrow> string \<Rightarrow> string \<Rightarrow> GKeyFile \<Rightarrow> GKeyFile" where
  "set_in_group group_name key val [] = []"
| "set_in_group group_name key val ((n, ps) # gs) =
     (if n = group_name
      then (n, if map_of ps key = None then (key, val) # ps else set_pair key val ps) # gs
      else (n, ps) # set_in_group group_name key val gs)"

definition g_key_file_set_value ::
  "GKeyFile option \<Rightarrow> string option \<Rightarrow> string \<Rightarrow> string \<Rightarrow> GKeyFile option" where
  "g_key_file_set_value key_file group_name key val =
     (case key_file of
        None \<Rightarrow> None
      | Some kf \<Rightarrow>
          (case group_name of
             None \<Rightarrow> Some kf
           | Some g \<Rightarrow>
               if \<not> g_key_file_is_group_name g \<or> \<not> g_key_file_is_key_name key then Some kf
               else if map_of kf g = None then Some ((g, [(key, val)]) # kf)
               else Some (set_in_group g key val kf)))"

fun decimal :: "nat \<Rightarrow> string" where
  "decimal n =
     (if n < 10 then [char_of (48 + n)]
      else decimal (n div 10) @ [char_of (48 + n mod 10)])"

declare decimal.simps [simp del]

text \<open>The text \<^verbatim>\<open>printf ("%d")\<close> gives for a \<^verbatim>\<open>gint\<close>.\<close>

definition printf_d :: "gint \<Rightarrow> string" where
  "printf_d i =
     (if sint i < 0 then CHR ''-'' # decimal (nat (- sint i)) else decimal (nat (sint i)))"

text \<open>
  \<^verbatim>\<open>g_key_file_parse_string_as_value\<close>: the raw text stored for a string. Line breaks and
  backslashes are escaped, spaces and tabs only while they lead the string.
\<close>

fun g_key_file_parse_string_as_value :: "bool \<Rightarrow> string \<Rightarrow> string" where
  "g_key_file_parse_string_as_value parsing_leading_space [] = []"
| "g_key_file_parse_string_as_value parsing_leading_space (c # cs) =
     (if c = CHR '' '' then
        (if parsing_leading_space then [CHR 0x5C, CHR ''s''] else [c])
        @ g_key_file_parse_string_as_value parsing_leading_space cs
      else if c = CHR 0x09 then
        (if parsing_leading_space then [CHR 0x5C, CHR ''t''] else [c])
        @ g_key_file_parse_string_as_value parsing_leading_space cs
      else if c = CHR 0x0A then
        [CHR 0x5C, CHR ''n''] @ g_key_file_parse_string_as_value parsing_leading_space cs
      else if c = CHR 0x0D then
        [CHR 0x5C, CHR ''r''] @ g_key_file_parse_string_as_value parsing_leading_space cs
      else if c = CHR 0x5C then
        [CHR 0x5C, CHR 0x5C] @ g_key_file_parse_string_as_value False cs
      else c # g_key_file_parse_string_as_value False cs)"

definition g_key_file_set_boolean ::
  "GKeyFile option \<Rightarrow> string option \<Rightarrow> string \<Rightarrow> bool \<Rightarrow> GKeyFile option" where
  "g_key_file_set_boolean key_file group_name key val =
     g_key_file_set_value key_file group_name key (if val then ''true'' else ''false'')"

definition g_key_file_set_integer ::
  "GKeyFile option \<Rightarrow> string option \<Rightarrow> string \<Rightarrow> gint \<Rightarrow> GKeyFile option" where
  "g_key_file_set_integer key_file group_name key val =
     g_key_file_set_value key_file group_name key (printf_d val)"

definition g_key_file_set_double ::
  "platform \<Rightarrow> GKeyFile option \<Rightarrow> string option \<Rightarrow> string \<Rightarrow> gdouble \<Rightarrow> GKeyFile option" where
  "g_key_file_set_double X key_file group_name key val =
     g_key_file_set_value key_file group_name key (ascii_dtostr X val)"

definition g_key_file_set_string ::
  "GKeyFile option \<Rightarrow> string option \<Rightarrow> string \<Rightarrow> string option \<Rightarrow> GKeyFile option" where
  "g_key_file_set_string key_file group_name key str =
     (case str of
        None \<Rightarrow> key_file
      | Some s \<Rightarrow>
          g_key_file_set_value key_file group_name key
            (g_key_file_parse_string_as_value True s))"

definition g_key_file_set_double_list ::
  "platform \<Rightarrow> GKeyFile option \<Rightarrow> string option \<Rightarrow> string \<Rightarrow> gdouble list \<Rightarrow> GKeyFile option" where
  "g_key_file_set_double_list X key_file group_name key list =
     g_key_file_set_value key_file group_name key
       (concat (map (\<lambda>d. ascii_dtostr X d @ '';'') list))"

section \<open>prefs.c: the setters\<close>

definition prefs_set_boolean :: "string \<Rightarrow> bool \<Rightarrow> GKeyFile option \<Rightarrow> GKeyFile option" where
  "prefs_set_boolean key val keyFile = g_key_file_set_boolean keyFile (Some ''PNMixer'') key val"

definition prefs_set_integer :: "string \<Rightarrow> gint \<Rightarrow> GKeyFile option \<Rightarrow> GKeyFile option" where
  "prefs_set_integer key val keyFile = g_key_file_set_integer keyFile (Some ''PNMixer'') key val"

definition prefs_set_double ::
  "platform \<Rightarrow> string \<Rightarrow> gdouble \<Rightarrow> GKeyFile option \<Rightarrow> GKeyFile option" where
  "prefs_set_double X key val keyFile = g_key_file_set_double X keyFile (Some ''PNMixer'') key val"

definition prefs_set_string ::
  "string \<Rightarrow> string option \<Rightarrow> GKeyFile option \<Rightarrow> GKeyFile option" where
  "prefs_set_string key val keyFile = g_key_file_set_string keyFile (Some ''PNMixer'') key val"

definition prefs_set_channel ::
  "string option \<Rightarrow> string option \<Rightarrow> GKeyFile option \<Rightarrow> GKeyFile option" where
  "prefs_set_channel card_name channel keyFile =
     g_key_file_set_string keyFile card_name ''Channel'' channel"

definition prefs_set_vol_meter_colors ::
  "platform \<Rightarrow> gdouble list \<Rightarrow> GKeyFile option \<Rightarrow> GKeyFile option" where
  "prefs_set_vol_meter_colors X colors keyFile =
     g_key_file_set_double_list X keyFile (Some ''PNMixer'') ''VolMeterColor'' colors"

section \<open>The GLib key file: text form\<close>

text \<open>
  \<^verbatim>\<open>g_key_file_to_data\<close> writes the groups oldest first, a blank line between two groups,
  each group as its header line and one \<^verbatim>\<open>key=value\<close> line per pair.
\<close>

definition pair_to_data :: "string \<times> string \<Rightarrow> string" where
  "pair_to_data p = fst p @ ''='' @ snd p @ [CHR 0x0A]"

definition group_to_data :: "GKeyFileGroup \<Rightarrow> string" where
  "group_to_data g =
     ''['' @ fst g @ '']'' @ [CHR 0x0A] @ concat (map pair_to_data (rev (snd g)))"

fun groups_to_data :: "GKeyFileGroup list \<Rightarrow> string" where
  "groups_to_data [] = []"
| "groups_to_data [g] = group_to_data g"
| "groups_to_data (g # h # gs) = group_to_data g @ [CHR 0x0A] @ groups_to_data (h # gs)"

definition g_key_file_to_data :: "GKeyFile \<Rightarrow> string" where
  "g_key_file_to_data kf = groups_to_data (rev kf)"

text \<open>
  \<^verbatim>\<open>g_key_file_load_from_data\<close> with flags 0 (comments and translations are not kept).
  The data is cut at line feeds, a carriage return before the line feed is dropped, and
  each line is a comment (blank, or starting with \<^verbatim>\<open>#\<close>), a group header, or a key/value
  pair of the current group. A group seen again is continued; a key seen again is added in
  front, so that it wins.
\<close>

fun split_lines :: "string \<Rightarrow> string \<Rightarrow> string list" where
  "split_lines buf [] = (if buf = [] then [] else [buf])"
| "split_lines buf (c # cs) =
     (if c = CHR 0x0A
      then (if buf \<noteq> [] \<and> last buf = CHR 0x0D then butlast buf else buf) # split_lines [] cs
      else split_lines (buf @ [c]) cs)"

definition g_ascii_tolower :: "char \<Rightarrow> char" where
  "g_ascii_tolower c =
     (if 65 \<le> (of_char c :: nat) \<and> (of_char c :: nat) \<le> 90
      then char_of ((of_char c :: nat) + 32) else c)"

text \<open>\<^verbatim>\<open>strcasecmp (a, b) == 0\<close>, in the C locale.\<close>

definition strcasecmp_eq :: "string \<Rightarrow> string \<Rightarrow> bool" where
  "strcasecmp_eq a b \<longleftrightarrow> map g_ascii_tolower a = map g_ascii_tolower b"

definition g_key_file_line_is_comment :: "string \<Rightarrow> bool" where
  "g_key_file_line_is_comment line \<longleftrightarrow> line = [] \<or> hd line = CHR ''#''"

definition g_key_file_line_is_group :: "string \<Rightarrow> bool" where
  "g_key_file_line_is_group line \<longleftrightarrow>
     line \<noteq> [] \<and> hd line = CHR ''[''
     \<and> (let rest = dropWhile (\<lambda>c. c \<noteq> CHR '']'') (tl line)
        in rest \<noteq> [] \<and> list_all (\<lambda>c. c = CHR '' '' \<or> c = CHR 0x09) (tl rest))"

definition g_key_file_line_is_key_value_pair :: "string \<Rightarrow> bool" where
  "g_key_file_line_is_key_value_pair line \<longleftrightarrow>
     CHR ''='' \<in> set line \<and> hd line \<noteq> CHR ''=''"

text \<open>The parser's state: the groups read so far and the name of the current group.\<close>

type_synonym parse_state = "GKeyFile \<times> string option"

fun add_key :: "string \<Rightarrow> string \<Rightarrow> string \<Rightarrow> GKeyFile \<Rightarrow> GKeyFile" where
  "add_key group_name key val [] = []"
| "add_key group_name key val ((n, ps) # gs) =
     (if n = group_name then (n, (key, val) # ps) # gs
      else (n, ps) # add_key group_name key val gs)"

definition g_key_file_parse_group :: "string \<Rightarrow> parse_state \<Rightarrow> GKeyFileError + parse_state" where
  "g_key_file_parse_group line st =
     (let group_name = takeWhile (\<lambda>c. c \<noteq> CHR '']'') (tl line) in
      if \<not> g_key_file_is_group_name group_name then Inl G_KEY_FILE_ERROR_PARSE
      else if map_of (fst st) group_name = None
      then Inr ((group_name, []) # fst st, Some group_name)
      else Inr (fst st, Some group_name))"

definition g_key_file_parse_key_value_pair ::
  "string \<Rightarrow> parse_state \<Rightarrow> GKeyFileError + parse_state" where
  "g_key_file_parse_key_value_pair line st =
     (case snd st of
        None \<Rightarrow> Inl G_KEY_FILE_ERROR_GROUP_NOT_FOUND
      | Some current_group \<Rightarrow>
          let key = rev (dropWhile g_ascii_isspace (rev (takeWhile (\<lambda>c. c \<noteq> CHR ''='') line)));
              val = dropWhile g_ascii_isspace (tl (dropWhile (\<lambda>c. c \<noteq> CHR ''='') line))
          in if \<not> g_key_file_is_key_name key then Inl G_KEY_FILE_ERROR_PARSE
             else if fst st \<noteq> [] \<and> fst (last (fst st)) = current_group
                     \<and> key = ''Encoding'' \<and> \<not> strcasecmp_eq val ''UTF-8''
             then Inl G_KEY_FILE_ERROR_UNKNOWN_ENCODING
             else Inr (add_key current_group key val (fst st), Some current_group))"

definition g_key_file_parse_line :: "string \<Rightarrow> parse_state \<Rightarrow> GKeyFileError + parse_state" where
  "g_key_file_parse_line line st =
     (let line_start = dropWhile g_ascii_isspace line in
      if g_key_file_line_is_comment line_start then Inr st
      else if g_key_file_line_is_group line_start then g_key_file_parse_group line_start st
      else if g_key_file_line_is_key_value_pair line_start
      then g_key_file_parse_key_value_pair line_start st
      else Inl G_KEY_FILE_ERROR_PARSE)"

fun parse_lines :: "string list \<Rightarrow> parse_state \<Rightarrow> GKeyFileError + parse_state" where
  "parse_lines [] st = Inr st"
| "parse_lines (l # ls) st =
     (case g_key_file_parse_line l st of
        Inl e \<Rightarrow> Inl e
      | Inr st1 \<Rightarrow> parse_lines ls st1)"

definition g_key_file_load_from_data :: "string \<Rightarrow> GKeyFileError + GKeyFile" where
  "g_key_file_load_from_data data =
     (case parse_lines (split_lines [] data) ([], None) of
        Inl e \<Rightarrow> Inl e
      | Inr st \<Rightarrow> Inr (fst st))"

section \<open>Files\<close>

text \<open>
  The part of the file system the preferences code touches: what a path names, and
  whether entries may be created or replaced in a directory. A path is its list of
  components; \<open>butlast\<close> gives the containing directory.
\<close>

datatype fnode = RegularFile string | Directory

type_synonym path = "string list"

record filesystem =
  nodes :: "path \<Rightarrow> fnode option"
  writable :: "path \<Rightarrow> bool"

datatype GError = G_FILE_ERROR | G_KEY_FILE_ERROR GKeyFileError

definition g_file_test_EXISTS :: "filesystem \<Rightarrow> path \<Rightarrow> bool" where
  "g_file_test_EXISTS f p \<longleftrightarrow> nodes f p \<noteq> None"

definition g_file_test_IS_DIR :: "filesystem \<Rightarrow> path \<Rightarrow> bool" where
  "g_file_test_IS_DIR f p \<longleftrightarrow> nodes f p = Some Directory"

text \<open>\<^verbatim>\<open>g_mkdir (p, S_IRWXU)\<close>: one directory, not its parents; \<open>Inl\<close> is the return -1.\<close>

definition g_mkdir :: "filesystem \<Rightarrow> path \<Rightarrow> unit + filesystem" where
  "g_mkdir f p =
     (if nodes f p = None \<and> nodes f (butlast p) = Some Directory \<and> writable f (butlast p)
      then Inr (f\<lparr>nodes := (nodes f)(p \<mapsto> Directory), writable := (writable f)(p := True)\<rparr>)
      else Inl ())"

text \<open>
  \<^verbatim>\<open>g_file_set_contents\<close> writes a temporary file beside the target and renames it over
  the target: the file is replaced as a whole or not at all.
\<close>

definition g_file_set_contents :: "filesystem \<Rightarrow> path \<Rightarrow> string \<Rightarrow> GError + filesystem" where
  "g_file_set_contents f p contents =
     (if nodes f (butlast p) = Some Directory \<and> writable f (butlast p)
         \<and> nodes f p \<noteq> Some Directory
      then Inr (f\<lparr>nodes := (nodes f)(p \<mapsto> RegularFile contents)\<rparr>)
      else Inl G_FILE_ERROR)"

definition g_key_file_load_from_file :: "filesystem \<Rightarrow> path \<Rightarrow> GError + GKeyFile" where
  "g_key_file_load_from_file f p =
     (case nodes f p of
        Some (RegularFile contents) \<Rightarrow>
          (case g_key_file_load_from_data contents of
             Inl e \<Rightarrow> Inl (G_KEY_FILE_ERROR e)
           | Inr kf \<Rightarrow> Inr kf)
      | _ \<Rightarrow> Inl G_FILE_ERROR)"

section \<open>The program state and its collaborators\<close>

text \<open>
  Calls into the collaborators (the error dialog, the GTK widgets, the hotkey registrar,
  the ALSA backend, the input grab) are recorded in the order the code makes them.
  \<open>gtk_label_set_text l t\<close> is the write of text \<open>t\<close> into the label named \<open>l\<close>.
  \<open>gdk_device_grab d\<close> and \<open>gdk_device_ungrab d\<close> carry the device the call names
  (\<open>None\<close> for \<^verbatim>\<open>NULL\<close>); \<open>gdk_keyboard_grab\<close> and \<open>gdk_keyboard_ungrab\<close> are the calls of
  the GTK 2 build. \<open>memory_fault\<close> marks the point where the C program leaves defined
  behaviour.
\<close>

type_synonym GdkDevice = nat

datatype effect =
    report_error string
  | gtk_adjustment_set_page_increment gint
  | gtk_adjustment_set_step_increment gint
  | grab_keys gint gint gint gint gint gint gint
  | set_vol_meter_color gdouble gdouble gdouble
  | update_status_icons
  | update_vol_text
  | do_alsa_reinit
  | gdk_device_grab "GdkDevice option"
  | gdk_keyboard_grab
  | gdk_device_ungrab "GdkDevice option"
  | gdk_keyboard_ungrab
  | gtk_label_set_text string string
  | gtk_dialog_response_OK
  | gtk_widget_hide_hotkey_dialog
  | gtk_widget_destroy_prefs_window
  | memory_fault fault

text \<open>
  Besides the globals of the program the state holds what the code asks its environment:
  the files, the device of the event GTK is handling (\<^verbatim>\<open>gtk_get_current_event_device\<close>)
  and whether a grab request is granted (\<^verbatim>\<open>GDK_GRAB_SUCCESS\<close>).
\<close>

record world =
  keyFile :: "GKeyFile option"
  fs :: filesystem
  user_config_dir :: path
  trace :: "effect list"
  scroll_step :: gint
  fine_scroll_step :: gint
  enable_noti :: bool
  hotkey_noti :: bool
  mouse_noti :: bool
  popup_noti :: bool
  external_noti :: bool
  noti_timeout :: gint
  current_event_device :: "GdkDevice option"
  grab_succeeds :: bool

definition emit :: "effect \<Rightarrow> world \<Rightarrow> world" where
  "emit e w = w\<lparr>trace := trace w @ [e]\<rparr>"

section \<open>prefs.c: load and save\<close>

definition DEFAULT_PREFS :: string where
  "DEFAULT_PREFS =
     ''[PNMixer]\<newline>SliderOrientation=vertical\<newline>DisplayTextVolume=true\<newline>TextVolumePosition=0\<newline>ScrollStep=5\<newline>FineScrollStep=1\<newline>HotkeyVolumeStep=1\<newline>MiddleClickAction=0\<newline>CustomCommand=\<newline>VolMuteKey=-1\<newline>VolUpKey=-1\<newline>VolDownKey=-1\<newline>AlsaCard=default\<newline>SystemTheme=false''"

definition config_filename :: "world \<Rightarrow> path" where
  "config_filename w = user_config_dir w @ [''pnmixer'', ''config'']"

definition prefs_load :: "world \<Rightarrow> world" where
  "prefs_load w =
     (let filename = config_filename w in
      if g_file_test_EXISTS (fs w) filename then
        (case g_key_file_load_from_file (fs w) filename of
           Inl err \<Rightarrow> emit (report_error ''Couldn't load preferences file'') (w\<lparr>keyFile := None\<rparr>)
         | Inr kf \<Rightarrow> w\<lparr>keyFile := Some kf\<rparr>)
      else
        (case g_key_file_load_from_data DEFAULT_PREFS of
           Inl err \<Rightarrow> emit (report_error ''Couldn't load default preferences'') (w\<lparr>keyFile := None\<rparr>)
         | Inr kf \<Rightarrow> w\<lparr>keyFile := Some kf\<rparr>))"

text \<open>
  \<^verbatim>\<open>prefs_save\<close> hands \<^verbatim>\<open>g_key_file_to_data (keyFile, &len, NULL)\<close> to
  \<^verbatim>\<open>g_file_set_contents\<close>. With \<^verbatim>\<open>keyFile == NULL\<close> GLib returns \<^verbatim>\<open>NULL\<close> and leaves the
  local \<^verbatim>\<open>len\<close> unset, and the code goes on to pass that \<^verbatim>\<open>len\<close>: what happens next depends
  on an indeterminate value.
\<close>

definition prefs_save :: "world \<Rightarrow> world" where
  "prefs_save w =
     (let filename = config_filename w in
      case keyFile w of
        None \<Rightarrow> emit (memory_fault IndeterminateValue) w
      | Some kf \<Rightarrow>
          (case g_file_set_contents (fs w) filename (g_key_file_to_data kf) of
             Inl err \<Rightarrow> emit (report_error ''Couldn't write preferences file'') w
           | Inr fs1 \<Rightarrow> w\<lparr>fs := fs1\<rparr>))"

definition prefs_ensure_save_dir :: "world \<Rightarrow> world" where
  "prefs_ensure_save_dir w =
     (let prefs_dir = user_config_dir w @ [''pnmixer''] in
      if \<not> g_file_test_IS_DIR (fs w) prefs_dir then
        (if g_file_test_EXISTS (fs w) prefs_dir
         then emit (report_error
                ''Error: prefs dir exists but is not a directory, will not be able to save preferences.'') w
         else (case g_mkdir (fs w) prefs_dir of
                 Inl err \<Rightarrow> emit (report_error ''Couldn't make prefs directory'') w
               | Inr fs1 \<Rightarrow> w\<lparr>fs := fs1\<rparr>))
      else w)"

section \<open>prefs.c: applying the preferences\<close>

definition set_notification_options :: "world \<Rightarrow> world" where
  "set_notification_options w =
     w\<lparr>enable_noti := prefs_get_boolean (keyFile w) ''EnableNotifications'' False,
       hotkey_noti := prefs_get_boolean (keyFile w) ''HotkeyNotifications'' True,
       mouse_noti := prefs_get_boolean (keyFile w) ''MouseNotifications'' True,
       popup_noti := prefs_get_boolean (keyFile w) ''PopupNotifications'' False,
       external_noti := prefs_get_boolean (keyFile w) ''ExternalNotifications'' False,
       noti_timeout := prefs_get_integer (keyFile w) ''NotificationTimeout'' 1500\<rparr>"

definition apply_prefs :: "platform \<Rightarrow> gint \<Rightarrow> world \<Rightarrow> world" where
  "apply_prefs X alsa_change w =
     (let w1 = w\<lparr>scroll_step := prefs_get_integer (keyFile w) ''ScrollStep'' 5\<rparr>;
          w2 = emit (gtk_adjustment_set_page_increment (scroll_step w1)) w1;
          w3 = w2\<lparr>fine_scroll_step := prefs_get_integer (keyFile w2) ''FineScrollStep'' 1\<rparr>;
          w4 = emit (gtk_adjustment_set_step_increment (fine_scroll_step w3)) w3;
          w5 =
            (if prefs_get_boolean (keyFile w4) ''EnableHotKeys'' False then
               (let mk = prefs_get_integer (keyFile w4) ''VolMuteKey'' (- 1);
                    uk = prefs_get_integer (keyFile w4) ''VolUpKey'' (- 1);
                    dk = prefs_get_integer (keyFile w4) ''VolDownKey'' (- 1);
                    mm = prefs_get_integer (keyFile w4) ''VolMuteMods'' 0;
                    um = prefs_get_integer (keyFile w4) ''VolUpMods'' 0;
                    dm = prefs_get_integer (keyFile w4) ''VolDownMods'' 0;
                    hstep = prefs_get_integer (keyFile w4) ''HotkeyVolumeStep'' 1
                in emit (grab_keys mk uk dk mm um dm hstep) w4)
             else emit (grab_keys (- 1) (- 1) (- 1) 0 0 0 1) w4);
          w6 = set_notification_options w5
      in case prefs_get_vol_meter_colors X (keyFile w6) of
           Inl f \<Rightarrow> emit (memory_fault f) w6
         | Inr vol_meter_clrs \<Rightarrow>
             let w7 = emit (set_vol_meter_color (vol_meter_clrs ! 0) (vol_meter_clrs ! 1)
                              (vol_meter_clrs ! 2)) w6;
                 w8 = emit update_status_icons w7;
                 w9 = emit update_vol_text w8
             in if alsa_change \<noteq> 0 then emit do_alsa_reinit w9 else w9)"

section \<open>callbacks.c: the OK button of the preferences window\<close>

text \<open>
  \<^verbatim>\<open>PrefsData\<close> holds the widgets of the preferences window; the record holds what each
  of them shows. The model is the build with \<^verbatim>\<open>WITH_GTK3\<close> and \<^verbatim>\<open>HAVE_LIBN\<close>, with a card
  and a channel selected in the two combo boxes.
\<close>

record PrefsData =
  slider_orientation_combo :: "string option"
  vol_text_check :: bool
  vol_pos_combo :: gint
  draw_vol_check :: bool
  vol_meter_pos_spin :: gint
  vol_meter_color_button :: "gdouble \<times> gdouble \<times> gdouble"
  card_combo :: string
  chan_combo :: string
  system_theme :: bool
  vol_control_entry :: string
  scroll_step_spin :: gdouble
  fine_scroll_step_spin :: gdouble
  middle_click_combo :: gint
  custom_entry :: string
  normalize_vol_check :: bool
  enable_hotkeys_check :: bool
  hotkey_vol_spin :: gint
  hotkey_key_label :: string
  mute_hotkey_label :: string
  up_hotkey_label :: string
  down_hotkey_label :: string
  enable_noti_check :: bool
  hotkey_noti_check :: bool
  mouse_noti_check :: bool
  popup_noti_check :: bool
  external_noti_check :: bool
  noti_timeout_spin :: gint

text \<open>The key code stored for a hotkey label: -1 when the label is no accelerator.\<close>

definition label_keycode :: "platform \<Rightarrow> string \<Rightarrow> gint" where
  "label_keycode X text =
     (let (keysym, mods) = accelerator_parse X text
      in if keysym \<noteq> 0 then XKeysymToKeycode X keysym else - 1)"

definition label_mods :: "platform \<Rightarrow> string \<Rightarrow> gint" where
  "label_mods X text = snd (accelerator_parse X text)"

definition on_ok_button_clicked :: "platform \<Rightarrow> PrefsData \<Rightarrow> world \<Rightarrow> world" where
  "on_ok_button_clicked X data w =
     (let alsa_change = (0 :: gint);
          kf = keyFile w;
          kf = prefs_set_string ''SliderOrientation'' (slider_orientation_combo data) kf;
          kf = prefs_set_boolean ''DisplayTextVolume'' (vol_text_check data) kf;
          kf = prefs_set_integer ''TextVolumePosition'' (vol_pos_combo data) kf;
          kf = prefs_set_boolean ''DrawVolMeter'' (draw_vol_check data) kf;
          kf = prefs_set_integer ''VolMeterPos'' (vol_meter_pos_spin data) kf;
          colors = (case vol_meter_color_button data of (r, g, b) \<Rightarrow> [r, g, b]);
          kf = prefs_set_vol_meter_colors X colors kf;
          old_card = prefs_get_string kf ''AlsaCard'' None;
          acard = card_combo data;
          alsa_change = (if old_card \<noteq> None \<and> the old_card \<noteq> acard then 1 else alsa_change);
          kf = prefs_set_string ''AlsaCard'' (Some acard) kf;
          old_channel = (if old_card \<noteq> None then prefs_get_channel kf old_card else None);
          chan = chan_combo data;
          alsa_change =
            (if old_channel \<noteq> None \<and> the old_channel \<noteq> chan then 1 else alsa_change);
          kf = prefs_set_channel (Some acard) (Some chan) kf;
          kf = prefs_set_boolean ''SystemTheme'' (system_theme data) kf;
          kf = prefs_set_string ''VolumeControlCommand'' (Some (vol_control_entry data)) kf;
          kf = prefs_set_double X ''ScrollStep'' (scroll_step_spin data) kf;
          kf = prefs_set_double X ''FineScrollStep'' (fine_scroll_step_spin data) kf;
          kf = prefs_set_integer ''MiddleClickAction'' (middle_click_combo data) kf;
          kf = prefs_set_string ''CustomCommand'' (Some (custom_entry data)) kf;
          kf = prefs_set_boolean ''NormalizeVolume'' (normalize_vol_check data) kf;
          kf = prefs_set_boolean ''EnableHotKeys'' (enable_hotkeys_check data) kf;
          kf = prefs_set_integer ''HotkeyVolumeStep'' (hotkey_vol_spin data) kf;
          kf = prefs_set_integer ''VolMuteKey'' (label_keycode X (mute_hotkey_label data)) kf;
          kf = prefs_set_integer ''VolMuteMods'' (label_mods X (mute_hotkey_label data)) kf;
          kf = prefs_set_integer ''VolUpKey'' (label_keycode X (up_hotkey_label data)) kf;
          kf = prefs_set_integer ''VolUpMods'' (label_mods X (up_hotkey_label data)) kf;
          kf = prefs_set_integer ''VolDownKey'' (label_keycode X (down_hotkey_label data)) kf;
          kf = prefs_set_integer ''VolDownMods'' (label_mods X (down_hotkey_label data)) kf;
          kf = prefs_set_boolean ''EnableNotifications'' (enable_noti_check data) kf;
          kf = prefs_set_boolean ''HotkeyNotifications'' (hotkey_noti_check data) kf;
          kf = prefs_set_boolean ''MouseNotifications'' (mouse_noti_check data) kf;
          kf = prefs_set_boolean ''PopupNotifications'' (popup_noti_check data) kf;
          kf = prefs_set_boolean ''ExternalNotifications'' (external_noti_check data) kf;
          kf = prefs_set_integer ''NotificationTimeout'' (noti_timeout_spin data) kf;
          w1 = prefs_save (w\<lparr>keyFile := kf\<rparr>);
          w2 = apply_prefs X alsa_change w1
      in emit gtk_widget_destroy_prefs_window w2)"

section \<open>prefs.c: capturing a hotkey\<close>

text \<open>
  A key event, with the input device it came from (\<^verbatim>\<open>gdk_event_get_device\<close>).
\<close>

record GdkEventKey =
  ev_hardware_keycode :: guint
  ev_state :: guint
  ev_group :: guint
  ev_device :: GdkDevice

text \<open>
  What reaches the hotkey dialog while \<^verbatim>\<open>gtk_dialog_run\<close> is in its loop: key presses and
  key releases, handled by \<^verbatim>\<open>hotkey_pressed\<close> and \<^verbatim>\<open>hotkey_released\<close>, and the dialog being
  closed. Both handlers return \<^verbatim>\<open>FALSE\<close>, so a key press also reaches the key bindings of
  the dialog itself; a press on which these close the dialog (Escape) is the \<open>KeyPress\<close>
  followed by \<open>DeleteEvent\<close>.
\<close>

datatype dialog_event = KeyPress GdkEventKey | KeyRelease GdkEventKey | DeleteEvent

datatype GtkResponse = GTK_RESPONSE_OK | GTK_RESPONSE_DELETE_EVENT

text \<open>
  The grab and the ungrab as the two builds make them: with GTK 3 on the device
  \<^verbatim>\<open>gtk_get_current_event_device ()\<close> returns at the moment of the call, with GTK 2 on the
  keyboard.
\<close>

definition grab_request :: "platform \<Rightarrow> GdkDevice option \<Rightarrow> effect" where
  "grab_request X device = (if WITH_GTK3 X then gdk_device_grab device else gdk_keyboard_grab)"

definition ungrab_request :: "platform \<Rightarrow> GdkDevice option \<Rightarrow> effect" where
  "ungrab_request X device =
     (if WITH_GTK3 X then gdk_device_ungrab device else gdk_keyboard_ungrab)"

definition keyboard_grab :: "platform \<Rightarrow> world \<Rightarrow> bool \<times> world" where
  "keyboard_grab X w = (grab_succeeds w, emit (grab_request X (current_event_device w)) w)"

definition keyboard_ungrab :: "platform \<Rightarrow> world \<Rightarrow> world" where
  "keyboard_ungrab X w = emit (ungrab_request X (current_event_device w)) w"

definition key_text :: "platform \<Rightarrow> GdkEventKey \<Rightarrow> string" where
  "key_text X ev =
     (let state = ev_state ev;
          (keyval, consumed) =
            keymap_translate_keyboard_state X (ev_hardware_keycode ev) state (ev_group ev);
          state = state AND NOT consumed;
          state = state AND accelerator_get_default_mod_mask X
      in accelerator_name X keyval state)"

definition hotkey_pressed ::
  "platform \<Rightarrow> GdkEventKey \<Rightarrow> PrefsData \<times> world \<Rightarrow> PrefsData \<times> world" where
  "hotkey_pressed X ev dw =
     (case dw of (data, w) \<Rightarrow>
        (data\<lparr>hotkey_key_label := key_text X ev\<rparr>,
         emit (gtk_label_set_text ''hotkey_key_label'' (key_text X ev)) w))"

definition hotkey_released :: "platform \<Rightarrow> world \<Rightarrow> world" where
  "hotkey_released X w = emit gtk_dialog_response_OK (keyboard_ungrab X w)"

text \<open>
  \<^verbatim>\<open>gtk_dialog_run\<close> returns once a response is emitted. \<open>None\<close>: the events ran out before
  any response, and the dialog is still waiting. While GTK runs the handlers of an event,
  that event is the current one; when they are done, the event that was current before
  (here the one that made the program call \<^verbatim>\<open>acquire_hotkey\<close>) is current again.
\<close>

fun gtk_dialog_run ::
  "platform \<Rightarrow> dialog_event list \<Rightarrow> PrefsData \<times> world
     \<Rightarrow> (GtkResponse \<times> PrefsData \<times> world) option" where
  "gtk_dialog_run X [] dw = None"
| "gtk_dialog_run X (KeyPress ev # evs) dw = gtk_dialog_run X evs (hotkey_pressed X ev dw)"
| "gtk_dialog_run X (KeyRelease ev # evs) dw =
     Some (GTK_RESPONSE_OK, fst dw,
           (hotkey_released X ((snd dw)\<lparr>current_event_device := Some (ev_device ev)\<rparr>))
             \<lparr>current_event_device := current_event_device (snd dw)\<rparr>)"
| "gtk_dialog_run X (DeleteEvent # evs) dw = Some (GTK_RESPONSE_DELETE_EVENT, fst dw, snd dw)"

definition acquire_hotkey ::
  "platform \<Rightarrow> string \<Rightarrow> dialog_event list \<Rightarrow> PrefsData \<times> world
     \<Rightarrow> (PrefsData \<times> world) option" where
  "acquire_hotkey X widget_name evs dw =
     (case dw of (data, w) \<Rightarrow>
      let action =
            (if widget_name = ''mute_eventbox'' then 0
             else if widget_name = ''up_eventbox'' then 1
             else if widget_name = ''down_eventbox'' then 2 else (- 1 :: int))
      in if action < 0
         then Some (data, emit (report_error ''Invalid widget passed to acquire_hotkey'') w)
         else
           let title =
                 (if action = 0 then ''Mute/Unmute''
                  else if action = 1 then ''Volume Up'' else ''Volume Down'');
               data1 = data\<lparr>hotkey_key_label := title\<rparr>;
               w1 = emit (gtk_label_set_text ''hotkey_key_label'' title) w;
               (grabbed, w2) = keyboard_grab X w1
           in if grabbed then
                (case gtk_dialog_run X evs (data1, w2) of
                   None \<Rightarrow> None
                 | Some (resp, data2, w3) \<Rightarrow>
                     let w4 = keyboard_ungrab X w3 in
                     if resp = GTK_RESPONSE_OK then
                       (let key_name = hotkey_key_label data2;
                            key_name =
                              (if strcasecmp_eq key_name ''<Primary>c'' then ''(None)''
                               else key_name)
                        in if action = 0 then
                             Some (data2\<lparr>mute_hotkey_label := key_name\<rparr>,
                                   emit gtk_widget_hide_hotkey_dialog
                                     (emit (gtk_label_set_text ''mute_hotkey_label'' key_name) w4))
                           else if action = 1 then
                             Some (data2\<lparr>up_hotkey_label := key_name\<rparr>,
                                   emit gtk_widget_hide_hotkey_dialog
                                     (emit (gtk_label_set_text ''up_hotkey_label'' key_name) w4))
                           else
                             Some (data2\<lparr>down_hotkey_label := key_name\<rparr>,
                                   emit gtk_widget_hide_hotkey_dialog
                                     (emit (gtk_label_set_text ''down_hotkey_label'' key_name) w4)))
                     else Some (data2, emit gtk_widget_hide_hotkey_dialog w4))
              else
                Some (data1, emit gtk_widget_hide_hotkey_dialog
                               (emit (report_error ''Could not grab the keyboard.'') w2)))"

section \<open>Observing a run\<close>

text \<open>The collaborator calls a step added: the trace after it, without the trace before.\<close>

definition effects_since :: "world \<Rightarrow> world \<Rightarrow> effect list" where
  "effects_since w w' = drop (length (trace w)) (trace w')"

definition is_ungrab :: "effect \<Rightarrow> bool" where
  "is_ungrab e =
     (case e of gdk_device_ungrab _ \<Rightarrow> True | gdk_keyboard_ungrab \<Rightarrow> True | _ \<Rightarrow> False)"

definition is_grab_keys :: "effect \<Rightarrow> bool" where
  "is_grab_keys e = (case e of grab_keys _ _ _ _ _ _ _ \<Rightarrow> True | _ \<Rightarrow> False)"

text \<open>The call \<^verbatim>\<open>apply_prefs\<close> makes to the hotkey registrar, for a given store.\<close>

definition hotkey_effect :: "GKeyFile option \<Rightarrow> effect" where
  "hotkey_effect kf =
     (if prefs_get_boolean kf ''EnableHotKeys'' False then
        grab_keys (prefs_get_integer kf ''VolMuteKey'' (- 1))
          (prefs_get_integer kf ''VolUpKey'' (- 1))
          (prefs_get_integer kf ''VolDownKey'' (- 1))
          (prefs_get_integer kf ''VolMuteMods'' 0)
          (prefs_get_integer kf ''VolUpMods'' 0)
          (prefs_get_integer kf ''VolDownMods'' 0)
          (prefs_get_integer kf ''HotkeyVolumeStep'' 1)
      else grab_keys (- 1) (- 1) (- 1) 0 0 0 1)"

text \<open>The raw text a lookup finds, whatever the error code when it finds none.\<close>

definition lookup_value :: "GKeyFile \<Rightarrow> string \<Rightarrow> string \<Rightarrow> string option" where
  "lookup_value kf g k = (case g_key_file_get_value kf g k of Inl e \<Rightarrow> None | Inr x \<Rightarrow> Some x)"

text \<open>
  The store that the setters of \<^verbatim>\<open>on_ok_button_clicked\<close> leave behind, and the value its
  local \<^verbatim>\<open>alsa_change\<close> has when \<^verbatim>\<open>apply_prefs\<close> is called, both in terms of the store
  the handler started from (lemma \<open>on_ok_button_clicked_eq\<close> below).
\<close>

definition staged_store :: "platform \<Rightarrow> PrefsData \<Rightarrow> GKeyFile option \<Rightarrow> GKeyFile option" where
  "staged_store X data kf0 =
     (let kf = kf0;
          kf = prefs_set_string ''SliderOrientation'' (slider_orientation_combo data) kf;
          kf = prefs_set_boolean ''DisplayTextVolume'' (vol_text_check data) kf;
          kf = prefs_set_integer ''TextVolumePosition'' (vol_pos_combo data) kf;
          kf = prefs_set_boolean ''DrawVolMeter'' (draw_vol_check data) kf;
          kf = prefs_set_integer ''VolMeterPos'' (vol_meter_pos_spin data) kf;
          colors = (case vol_meter_color_button data of (r, g, b) \<Rightarrow> [r, g, b]);
          kf = prefs_set_vol_meter_colors X colors kf;
          kf = prefs_set_string ''AlsaCard'' (Some (card_combo data)) kf;
          kf = prefs_set_channel (Some (card_combo data)) (Some (chan_combo data)) kf;
          kf = prefs_set_boolean ''SystemTheme'' (system_theme data) kf;
          kf = prefs_set_string ''VolumeControlCommand'' (Some (vol_control_entry data)) kf;
          kf = prefs_set_double X ''ScrollStep'' (scroll_step_spin data) kf;
          kf = prefs_set_double X ''FineScrollStep'' (fine_scroll_step_spin data) kf;
          kf = prefs_set_integer ''MiddleClickAction'' (middle_click_combo data) kf;
          kf = prefs_set_string ''CustomCommand'' (Some (custom_entry data)) kf;
          kf = prefs_set_boolean ''NormalizeVolume'' (normalize_vol_check data) kf;
          kf = prefs_set_boolean ''EnableHotKeys'' (enable_hotkeys_check data) kf;
          kf = prefs_set_integer ''HotkeyVolumeStep'' (hotkey_vol_spin data) kf;
          kf = prefs_set_integer ''VolMuteKey'' (label_keycode X (mute_hotkey_label data)) kf;
          kf = prefs_set_integer ''VolMuteMods'' (label_mods X (mute_hotkey_label data)) kf;
          kf = prefs_set_integer ''VolUpKey'' (label_keycode X (up_hotkey_label data)) kf;
          kf = prefs_set_integer ''VolUpMods'' (label_mods X (up_hotkey_label data)) kf;
          kf = prefs_set_integer ''VolDownKey'' (label_keycode X (down_hotkey_label data)) kf;
          kf = prefs_set_integer ''VolDownMods'' (label_mods X (down_hotkey_label data)) kf;
          kf = prefs_set_boolean ''EnableNotifications'' (enable_noti_check data) kf;
          kf = prefs_set_boolean ''HotkeyNotifications'' (hotkey_noti_check data) kf;
          kf = prefs_set_boolean ''MouseNotifications'' (mouse_noti_check data) kf;
          kf = prefs_set_boolean ''PopupNotifications'' (popup_noti_check data) kf;
          kf = prefs_set_boolean ''ExternalNotifications'' (external_noti_check data) kf;
          kf = prefs_set_integer ''NotificationTimeout'' (noti_timeout_spin data) kf
      in kf)"

definition commit_alsa_change :: "GKeyFile option \<Rightarrow> PrefsData \<Rightarrow> gint" where
  "commit_alsa_change kf data =
     (case prefs_get_string kf ''AlsaCard'' None of
        None \<Rightarrow> 0
      | Some old_card \<Rightarrow>
          if old_card \<noteq> card_combo data then 1
          else (case prefs_get_channel kf (Some old_card) of
                  None \<Rightarrow> 0
                | Some old_channel \<Rightarrow> if old_channel \<noteq> chan_combo data then 1 else 0))"

text \<open>
  For a capture: the label that belongs to an event box and its name, the title shown in
  the dialog, the candidate the dialog shows after a list of key presses, and the text
  that is staged for a candidate.
\<close>

definition hotkey_label_name :: "string \<Rightarrow> string" where
  "hotkey_label_name widget_name =
     (if widget_name = ''mute_eventbox'' then ''mute_hotkey_label''
      else if widget_name = ''up_eventbox'' then ''up_hotkey_label''
      else ''down_hotkey_label'')"

definition hotkey_label :: "string \<Rightarrow> PrefsData \<Rightarrow> string" where
  "hotkey_label widget_name data =
     (if widget_name = ''mute_eventbox'' then mute_hotkey_label data
      else if widget_name = ''up_eventbox'' then up_hotkey_label data
      else down_hotkey_label data)"

definition hotkey_title :: "string \<Rightarrow> string" where
  "hotkey_title widget_name =
     (if widget_name = ''mute_eventbox'' then ''Mute/Unmute''
      else if widget_name = ''up_eventbox'' then ''Volume Up''
      else ''Volume Down'')"

definition staged_text :: "string \<Rightarrow> string" where
  "staged_text candidate =
     (if strcasecmp_eq candidate ''<Primary>c'' then ''(None)'' else candidate)"

definition candidate_after :: "platform \<Rightarrow> GdkEventKey list \<Rightarrow> string \<Rightarrow> string" where
  "candidate_after X presses initial = (if presses = [] then initial else key_text X (last presses))"

section \<open>Stores that a save and a load reproduce\<close>








section \<open>An example platform and example states\<close>

text \<open>
  A small platform to run the model on: doubles written in plain decimal notation, a
  keymap in which the hardware keycode is the key value, except that Shift (bit 0 of the
  state) turns a small letter into its capital and is consumed by that, a modifier mask of
  Shift, Control, Alt, Super, Hyper and Meta, and accelerator names made of the tags
  \<^verbatim>\<open><Shift>\<close>, \<^verbatim>\<open><Primary>\<close>, \<^verbatim>\<open><Alt>\<close> and one character. The build is the GTK 3 one.
\<close>

definition digits_value :: "string \<Rightarrow> nat" where
  "digits_value ds = foldl (\<lambda>a c. a * 10 + (of_char c - 48)) 0 ds"

definition decimal_strtod :: "string \<Rightarrow> gdouble option" where
  "decimal_strtod s =
     (let neg = (s \<noteq> [] \<and> hd s = CHR ''-'');
          t = (if neg then tl s else s);
          ip = takeWhile isdigit t;
          fp = dropWhile isdigit t;
          sg = (if neg then - 1 else 1)
      in if ip = [] then None
         else if fp = [] then Some (sg * real (digits_value ip))
         else if hd fp = CHR ''.'' \<and> tl fp \<noteq> [] \<and> list_all isdigit (tl fp)
         then Some (sg * (real (digits_value ip)
                          + real (digits_value (tl fp)) / 10 ^ length (tl fp)))
         else None)"

fun fraction_digits :: "nat \<Rightarrow> real \<Rightarrow> string" where
  "fraction_digits 0 x = []"
| "fraction_digits (Suc n) x =
     (if x = 0 then []
      else char_of (48 + nat \<lfloor>x * 10\<rfloor> mod 10)
           # fraction_digits n (x * 10 - real (nat \<lfloor>x * 10\<rfloor>)))"

definition decimal_dtostr :: "gdouble \<Rightarrow> string" where
  "decimal_dtostr d =
     (let fr = fraction_digits 17 (\<bar>d\<bar> - real (nat \<lfloor>\<bar>d\<bar>\<rfloor>))
      in (if d < 0 then ''-'' else []) @ decimal (nat \<lfloor>\<bar>d\<bar>\<rfloor>)
         @ (if fr = [] then [] else CHR ''.'' # fr))"

definition example_accelerator_name :: "guint \<Rightarrow> guint \<Rightarrow> string" where
  "example_accelerator_name keyval mods =
     (if mods AND 1 \<noteq> 0 then ''<Shift>'' else [])
     @ (if mods AND 4 \<noteq> 0 then ''<Primary>'' else [])
     @ (if mods AND 8 \<noteq> 0 then ''<Alt>'' else [])
     @ [char_of (unat keyval)]"

definition example_accelerator_parse :: "string \<Rightarrow> guint \<times> guint" where
  "example_accelerator_parse s =
     (let sh = (take 7 s = ''<Shift>'');
          s1 = (if sh then drop 7 s else s);
          pr = (take 9 s1 = ''<Primary>'');
          s2 = (if pr then drop 9 s1 else s1);
          al = (take 5 s2 = ''<Alt>'');
          s3 = (if al then drop 5 s2 else s2)
      in if length s3 = 1
         then (of_nat (of_char (hd s3)),
               (if sh then 1 else 0) OR (if pr then 4 else 0) OR (if al then 8 else 0))
         else (0, 0))"

definition example_platform :: platform where
  "example_platform =
     \<lparr>parse_value_as_double = decimal_strtod,
      ascii_dtostr = decimal_dtostr,
      keymap_translate_keyboard_state =
        (\<lambda>hardware_keycode state grp.
           if state AND 1 \<noteq> 0 \<and> 0x61 \<le> hardware_keycode \<and> hardware_keycode \<le> 0x7A
           then (hardware_keycode - 0x20, 1) else (hardware_keycode, 0)),
      accelerator_get_default_mod_mask = 0x1C00000D,
      accelerator_name = example_accelerator_name,
      accelerator_parse = example_accelerator_parse,
      XKeysymToKeycode = (\<lambda>keysym. keysym AND 0xFF),
      WITH_GTK3 = True\<rparr>"

text \<open>
  A file system with the user's configuration directory \<^verbatim>\<open>/home/.config\<close> and nothing
  below it, and one that also has \<^verbatim>\<open>pnmixer\<close> in it.
\<close>

definition fs_no_prefs_dir :: filesystem where
  "fs_no_prefs_dir =
     \<lparr>nodes = [[] \<mapsto> Directory, [''home''] \<mapsto> Directory,
               [''home'', ''.config''] \<mapsto> Directory],
      writable = (\<lambda>p. True)\<rparr>"

definition fs_prefs_dir :: filesystem where
  "fs_prefs_dir =
     \<lparr>nodes = [[] \<mapsto> Directory, [''home''] \<mapsto> Directory,
               [''home'', ''.config''] \<mapsto> Directory,
               [''home'', ''.config'', ''pnmixer''] \<mapsto> Directory],
      writable = (\<lambda>p. True)\<rparr>"

text \<open>
  A state with nothing done yet, in which the event being handled comes from device 2 and
  a grab is granted.
\<close>

definition world_of :: "GKeyFile option \<Rightarrow> filesystem \<Rightarrow> world" where
  "world_of kf f =
     \<lparr>keyFile = kf, fs = f, user_config_dir = [''home'', ''.config''], trace = [],
      scroll_step = 0, fine_scroll_step = 0, enable_noti = False, hotkey_noti = False,
      mouse_noti = False, popup_noti = False, external_noti = False, noti_timeout = 0,
      current_event_device = Some 2, grab_succeeds = True\<rparr>"

text \<open>A store with hotkeys switched off and three accelerators stored.\<close>

definition hotkeys_off_store :: GKeyFile where
  "hotkeys_off_store =
     [(''PNMixer'',
       [(''EnableHotKeys'', ''false''), (''VolMuteKey'', ''121''), (''VolUpKey'', ''123''),
        (''VolDownKey'', ''122''), (''VolMuteMods'', ''4''), (''HotkeyVolumeStep'', ''3'')])]"

text \<open>
  The store \<^verbatim>\<open>DEFAULT_PREFS\<close> parses to (lemma \<open>load_default_prefs\<close>), and what the
  preferences window shows when nothing is bound and card \<^verbatim>\<open>default\<close>, channel
  \<^verbatim>\<open>Master\<close> are selected.
\<close>

definition default_store :: GKeyFile where
  "default_store =
     [(''PNMixer'',
       [(''SystemTheme'', ''false''), (''AlsaCard'', ''default''), (''VolDownKey'', ''-1''),
        (''VolUpKey'', ''-1''), (''VolMuteKey'', ''-1''), (''CustomCommand'', []),
        (''MiddleClickAction'', ''0''), (''HotkeyVolumeStep'', ''1''),
        (''FineScrollStep'', ''1''), (''ScrollStep'', ''5''), (''TextVolumePosition'', ''0''),
        (''DisplayTextVolume'', ''true''), (''SliderOrientation'', ''vertical'')])]"

definition example_data :: PrefsData where
  "example_data =
     \<lparr>slider_orientation_combo = Some ''vertical'', vol_text_check = True, vol_pos_combo = 0,
      draw_vol_check = False, vol_meter_pos_spin = 0,
      vol_meter_color_button = (0.5, 0.25, 0),
      card_combo = ''default'', chan_combo = ''Master'', system_theme = False,
      vol_control_entry = [], scroll_step_spin = 5, fine_scroll_step_spin = 1,
      middle_click_combo = 0, custom_entry = [], normalize_vol_check = False,
      enable_hotkeys_check = False, hotkey_vol_spin = 1, hotkey_key_label = [],
      mute_hotkey_label = ''(None)'', up_hotkey_label = ''(None)'',
      down_hotkey_label = ''(None)'', enable_noti_check = False, hotkey_noti_check = True,
      mouse_noti_check = True, popup_noti_check = False, external_noti_check = False,
      noti_timeout_spin = 1500\<rparr>"

text \<open>
  The store a commit of \<open>example_data\<close> leaves when it starts from \<open>default_store\<close>
  (lemma \<open>committed_store_commit\<close>): every value shown in the window is stored.
\<close>

definition committed_store :: GKeyFile where
  "committed_store =
     [(''default'', [(''Channel'', ''Master'')]),
      (''PNMixer'',
       [(''NotificationTimeout'', ''1500''), (''ExternalNotifications'', ''false''),
        (''PopupNotifications'', ''false''), (''MouseNotifications'', ''true''),
        (''HotkeyNotifications'', ''true''), (''EnableNotifications'', ''false''),
        (''VolDownMods'', ''0''), (''VolUpMods'', ''0''), (''VolMuteMods'', ''0''),
        (''EnableHotKeys'', ''false''), (''NormalizeVolume'', ''false''),
        (''VolumeControlCommand'', []), (''VolMeterColor'', ''0.5;0.25;0;''),
        (''VolMeterPos'', ''0''), (''DrawVolMeter'', ''false''), (''SystemTheme'', ''false''),
        (''AlsaCard'', ''default''), (''VolDownKey'', ''-1''), (''VolUpKey'', ''-1''),
        (''VolMuteKey'', ''-1''), (''CustomCommand'', []), (''MiddleClickAction'', ''0''),
        (''HotkeyVolumeStep'', ''1''), (''FineScrollStep'', ''1''), (''ScrollStep'', ''5''),
        (''TextVolumePosition'', ''0''), (''DisplayTextVolume'', ''true''),
        (''SliderOrientation'', ''vertical'')])]"

text \<open>A configuration file that starts with a key instead of a group header.\<close>

definition fs_corrupt_config :: filesystem where
  "fs_corrupt_config =
     fs_prefs_dir\<lparr>nodes := (nodes fs_prefs_dir)
        ([''home'', ''.config'', ''pnmixer'', ''config''] \<mapsto> RegularFile ''ScrollStep=10'')\<rparr>"

section \<open>Lemmas on traces\<close>

lemma keyFile_emit [simp]: "keyFile (emit e w) = keyFile w"
  by (simp add: emit_def)

lemma trace_emit [simp]: "trace (emit e w) = trace w @ [e]"
  by (simp add: emit_def)

lemma fs_emit [simp]: "fs (emit e w) = fs w"
  by (simp add: emit_def)

lemma keyFile_set_notification_options [simp]:
  "keyFile (set_notification_options w) = keyFile w"
  by (simp add: set_notification_options_def)

lemma trace_set_notification_options [simp]:
  "trace (set_notification_options w) = trace w"
  by (simp add: set_notification_options_def)

lemma apply_prefs_trace:
  "trace (apply_prefs X alsa_change w) =
     trace w @
     [gtk_adjustment_set_page_increment (prefs_get_integer (keyFile w) ''ScrollStep'' 5),
      gtk_adjustment_set_step_increment (prefs_get_integer (keyFile w) ''FineScrollStep'' 1),
      hotkey_effect (keyFile w)] @
     (case prefs_get_vol_meter_colors X (keyFile w) of
        Inl f \<Rightarrow> [memory_fault f]
      | Inr c \<Rightarrow>
          [set_vol_meter_color (c ! 0) (c ! 1) (c ! 2), update_status_icons, update_vol_text]
          @ (if alsa_change \<noteq> 0 then [do_alsa_reinit] else []))"
  by (simp add: apply_prefs_def Let_def hotkey_effect_def split: sum.split)

lemma keyFile_apply_prefs [simp]: "keyFile (apply_prefs X alsa_change w) = keyFile w"
  by (simp add: apply_prefs_def Let_def split: sum.split)

section \<open>Hotkeys switched off\<close>

text \<open>
  C10. Whenever \<^verbatim>\<open>apply_prefs\<close> runs on a store whose \<^verbatim>\<open>EnableHotKeys\<close> flag reads false,
  it makes exactly one call to the hotkey registrar, and that call is
  \<^verbatim>\<open>grab_keys (-1, -1, -1, 0, 0, 0, 1)\<close>: all three keys unset and no modifiers, whatever
  accelerators the store holds.
\<close>

theorem apply_prefs_hotkeys_disabled:
  assumes "\<not> prefs_get_boolean (keyFile w) ''EnableHotKeys'' False"
  shows "filter is_grab_keys (effects_since w (apply_prefs X alsa_change w))
           = [grab_keys (- 1) (- 1) (- 1) 0 0 0 1]"
  using assms
  by (simp add: apply_prefs_trace effects_since_def hotkey_effect_def is_grab_keys_def
      split: sum.split)

theorem apply_prefs_hotkeys_disabled_witness:
  "\<not> prefs_get_boolean (keyFile (world_of (Some hotkeys_off_store) fs_prefs_dir))
        ''EnableHotKeys'' False
   \<and> prefs_get_integer (keyFile (world_of (Some hotkeys_off_store) fs_prefs_dir))
        ''VolMuteKey'' (- 1) = 121
   \<and> filter is_grab_keys
        (effects_since (world_of (Some hotkeys_off_store) fs_prefs_dir)
           (apply_prefs example_platform 0 (world_of (Some hotkeys_off_store) fs_prefs_dir)))
      = [grab_keys (- 1) (- 1) (- 1) 0 0 0 1]"
proof -
  have off: "\<not> prefs_get_boolean (keyFile (world_of (Some hotkeys_off_store) fs_prefs_dir))
               ''EnableHotKeys'' False"
    by (simp add: world_of_def hotkeys_off_store_def prefs_get_boolean_def
        g_key_file_get_boolean_def g_key_file_get_value_def
        g_key_file_parse_value_as_boolean_def g_ascii_isspace_def)
  have key: "prefs_get_integer (keyFile (world_of (Some hotkeys_off_store) fs_prefs_dir))
               ''VolMuteKey'' (- 1) = 121"
    by (simp add: world_of_def hotkeys_off_store_def prefs_get_integer_def
        g_key_file_get_integer_def g_key_file_get_value_def
        g_key_file_parse_value_as_integer_def strtol_def isspace_def g_ascii_isspace_def
        isdigit_def digit_val_def)
  from off key apply_prefs_hotkeys_disabled [OF off] show ?thesis by simp
qed

section \<open>Setting one key leaves the others\<close>

lemma map_of_set_pair:
  "map_of (set_pair k v ps) k' = (if k' = k \<and> map_of ps k \<noteq> None then Some v else map_of ps k')"
  by (induction ps) auto

lemma map_of_set_in_group:
  "map_of (set_in_group g k v kf) g' =
     (if g' = g
      then map_option (\<lambda>ps. if map_of ps k = None then (k, v) # ps else set_pair k v ps)
             (map_of kf g)
      else map_of kf g')"
  by (induction kf) auto

lemma set_value_Some:
  "\<exists>kf'. g_key_file_set_value (Some kf) go k v = Some kf'"
  by (simp add: g_key_file_set_value_def split: option.split)

lemma set_value_None [simp]: "g_key_file_set_value None go k v = None"
  by (simp add: g_key_file_set_value_def)

lemma lookup_value_set_value:
  assumes "g_key_file_set_value (Some kf) go k v = Some kf'"
  shows "lookup_value kf' g' k' =
           (if go = Some g' \<and> k' = k \<and> g_key_file_is_group_name g' \<and> g_key_file_is_key_name k
            then Some v else lookup_value kf g' k')"
proof (cases go)
  case None
  with assms show ?thesis by (simp add: g_key_file_set_value_def)
next
  case (Some g)
  show ?thesis
  proof (cases "g_key_file_is_group_name g \<and> g_key_file_is_key_name k")
    case False
    with assms Some show ?thesis by (auto simp: g_key_file_set_value_def)
  next
    case True
    show ?thesis
    proof (cases "map_of kf g")
      case None
      with assms Some True have "kf' = (g, [(k, v)]) # kf"
        by (simp add: g_key_file_set_value_def)
      with None Some True show ?thesis
        by (auto simp: lookup_value_def g_key_file_get_value_def)
    next
      case (Some ps)
      with assms \<open>go = Some g\<close> True have "kf' = set_in_group g k v kf"
        by (simp add: g_key_file_set_value_def)
      with Some \<open>go = Some g\<close> True show ?thesis
        by (auto simp: lookup_value_def g_key_file_get_value_def map_of_set_in_group map_of_set_pair
            split: option.splits)
    qed
  qed
qed

lemma lookup_value_eqD:
  assumes "lookup_value kf' g k = lookup_value kf g k"
  shows "(\<exists>e e'. g_key_file_get_value kf' g k = Inl e \<and> g_key_file_get_value kf g k = Inl e')
         \<or> (\<exists>x. g_key_file_get_value kf' g k = Inr x \<and> g_key_file_get_value kf g k = Inr x)"
  using assms by (auto simp: lookup_value_def split: sum.splits)

lemma set_value_other:
  assumes "go \<noteq> Some g' \<or> k' \<noteq> k"
  shows "(kfo = None \<and> g_key_file_set_value kfo go k v = None)
         \<or> (\<exists>kf kf'. kfo = Some kf \<and> g_key_file_set_value kfo go k v = Some kf'
              \<and> ((\<exists>e e'. g_key_file_get_value kf' g' k' = Inl e \<and> g_key_file_get_value kf g' k' = Inl e')
                 \<or> (\<exists>x. g_key_file_get_value kf' g' k' = Inr x \<and> g_key_file_get_value kf g' k' = Inr x)))"
proof (cases kfo)
  case None
  then show ?thesis by simp
next
  case (Some kf)
  obtain kf' where s: "g_key_file_set_value (Some kf) go k v = Some kf'"
    using set_value_Some by blast
  have "lookup_value kf' g' k' = lookup_value kf g' k'"
    using lookup_value_set_value [OF s, of g' k'] assms by auto
  from lookup_value_eqD [OF this] Some s show ?thesis by blast
qed

lemma prefs_get_string_set_value_other:
  assumes "go \<noteq> Some ''PNMixer'' \<or> k' \<noteq> k"
  shows "prefs_get_string (g_key_file_set_value kfo go k v) k' d = prefs_get_string kfo k' d"
  using set_value_other [OF assms, of kfo v]
  by (auto simp: prefs_get_string_def g_key_file_get_string_def)

lemma prefs_get_boolean_set_value_other:
  assumes "go \<noteq> Some ''PNMixer'' \<or> k' \<noteq> k"
  shows "prefs_get_boolean (g_key_file_set_value kfo go k v) k' d = prefs_get_boolean kfo k' d"
  using set_value_other [OF assms, of kfo v]
  by (auto simp: prefs_get_boolean_def g_key_file_get_boolean_def)

lemma prefs_get_integer_set_value_other:
  assumes "go \<noteq> Some ''PNMixer'' \<or> k' \<noteq> k"
  shows "prefs_get_integer (g_key_file_set_value kfo go k v) k' d = prefs_get_integer kfo k' d"
  using set_value_other [OF assms, of kfo v]
  by (auto simp: prefs_get_integer_def g_key_file_get_integer_def)

lemma prefs_get_double_set_value_other:
  assumes "go \<noteq> Some ''PNMixer'' \<or> k' \<noteq> k"
  shows "prefs_get_double X (g_key_file_set_value kfo go k v) k' d = prefs_get_double X kfo k' d"
  using set_value_other [OF assms, of kfo v]
  by (auto simp: prefs_get_double_def g_key_file_get_double_def)

lemma prefs_get_channel_set_value_other:
  assumes "go \<noteq> c \<or> k \<noteq> ''Channel''"
  shows "prefs_get_channel (g_key_file_set_value kfo go k v) c = prefs_get_channel kfo c"
proof (cases c)
  case None
  then show ?thesis by (simp add: prefs_get_channel_def)
next
  case (Some g')
  with assms have "go \<noteq> Some g' \<or> ''Channel'' \<noteq> k" by auto
  from set_value_other [OF this, of kfo v] Some show ?thesis
    by (auto simp: prefs_get_channel_def g_key_file_get_string_def)
qed

lemma get_double_list_set_value_other:
  assumes "go \<noteq> Some g' \<or> k' \<noteq> k"
  shows "g_key_file_get_double_list X (g_key_file_set_value kfo go k v) g' k' = g_key_file_get_double_list X kfo g' k'"
  using set_value_other [OF assms, of kfo v]
  by (auto simp: g_key_file_get_double_list_def)

lemma keyFile_prefs_save [simp]: "keyFile (prefs_save w) = keyFile w"
  by (simp add: prefs_save_def Let_def split: option.split sum.split)

lemma trace_prefs_save:
  "trace (prefs_save w) = trace w \<or> (\<exists>e. trace (prefs_save w) = trace w @ [e] \<and> e \<noteq> do_alsa_reinit \<and> \<not> is_grab_keys e)"
  by (simp add: prefs_save_def Let_def is_grab_keys_def split: option.split sum.split)

lemmas set_defs = prefs_set_string_def prefs_set_boolean_def prefs_set_integer_def
  prefs_set_double_def prefs_set_channel_def prefs_set_vol_meter_colors_def
  g_key_file_set_string_def g_key_file_set_boolean_def g_key_file_set_integer_def
  g_key_file_set_double_def g_key_file_set_double_list_def

lemma on_ok_button_clicked_eq:
  "on_ok_button_clicked X data w =
     emit gtk_widget_destroy_prefs_window
       (apply_prefs X (commit_alsa_change (keyFile w) data)
          (prefs_save (w\<lparr>keyFile := staged_store X data (keyFile w)\<rparr>)))"
proof -
  define kf6 where "kf6 =
     prefs_set_vol_meter_colors X (case vol_meter_color_button data of (r, g, b) \<Rightarrow> [r, g, b])
      (prefs_set_integer ''VolMeterPos'' (vol_meter_pos_spin data)
        (prefs_set_boolean ''DrawVolMeter'' (draw_vol_check data)
          (prefs_set_integer ''TextVolumePosition'' (vol_pos_combo data)
            (prefs_set_boolean ''DisplayTextVolume'' (vol_text_check data)
              (prefs_set_string ''SliderOrientation'' (slider_orientation_combo data) (keyFile w))))))"
  have card: "prefs_get_string kf6 ''AlsaCard'' None = prefs_get_string (keyFile w) ''AlsaCard'' None"
    unfolding kf6_def
    by (simp add: set_defs prefs_get_string_set_value_other split: option.split)
  have chan: "prefs_get_channel (prefs_set_string ''AlsaCard'' (Some (card_combo data)) kf6) c
                = prefs_get_channel (keyFile w) c" for c
    unfolding kf6_def
    by (simp add: set_defs prefs_get_channel_set_value_other split: option.split)
  show ?thesis
    unfolding on_ok_button_clicked_def staged_store_def Let_def kf6_def [symmetric]
    by (simp add: card chan commit_alsa_change_def split: option.split)
qed

section \<open>Number text and list values\<close>

lemma is_digit_char_of: "(k::nat) < 10 \<Longrightarrow> isdigit (char_of (48 + k))"
proof -
  assume "k < 10"
  then have "(48 + k) mod 256 = 48 + k" by simp
  with \<open>k < 10\<close> show ?thesis by (simp add: isdigit_def)
qed

lemma decimal_digits: "list_all isdigit (decimal n)"
proof (induction n rule: decimal.induct)
  case (1 n)
  show ?case
  proof (cases "n < 10")
    case True
    then show ?thesis by (subst decimal.simps) (simp add: is_digit_char_of)
  next
    case False
    with 1 show ?thesis by (subst decimal.simps) (simp add: is_digit_char_of)
  qed
qed

lemma fraction_digits_digits: "list_all isdigit (fraction_digits n x)"
  by (induction n x rule: fraction_digits.induct) (simp_all add: is_digit_char_of)

lemma isdigit_not_sep: "isdigit c \<Longrightarrow> c \<noteq> CHR '';''"
  by (auto simp: isdigit_def)

lemma list_all_digit_no_sep: "list_all isdigit s \<Longrightarrow> CHR '';'' \<notin> set s"
  by (auto simp: list_all_iff dest: isdigit_not_sep)

lemma decimal_dtostr_no_sep: "CHR '';'' \<notin> set (decimal_dtostr d)"
  using list_all_digit_no_sep [OF decimal_digits] list_all_digit_no_sep [OF fraction_digits_digits]
  by (auto simp: decimal_dtostr_def Let_def)

lemma split_list_value_piece:
  "CHR '';'' \<notin> set s \<Longrightarrow>
     split_list_value acc (s @ CHR '';'' # rest) = (acc @ s) # split_list_value [] rest"
  by (induction s arbitrary: acc) auto

lemma split_list_value_concat:
  "(\<And>d. CHR '';'' \<notin> set (f d)) \<Longrightarrow>
     split_list_value [] (concat (map (\<lambda>d. f d @ '';'') ds)) = map f ds"
  by (induction ds) (simp_all add: split_list_value_piece)

lemma parse_doubles_length: "parse_doubles X ps = Some ds \<Longrightarrow> length ds = length ps"
  by (induction ps arbitrary: ds) (auto split: option.splits)

lemma clamp_colors_ok:
  "i + n \<le> length cs \<Longrightarrow> \<exists>cs'. clamp_colors i n cs = Inr cs' \<and> length cs' = length cs"
  by (induction i n cs rule: clamp_colors.induct) auto

section \<open>The effects of the OK handler\<close>

lemma PNMixer_is_group_name: "g_key_file_is_group_name ''PNMixer''"
  by (simp add: g_key_file_is_group_name_def g_ascii_iscntrl_def)

lemma lookup_value_Some_iff:
  "lookup_value kf g k = Some v \<longleftrightarrow> g_key_file_get_value kf g k = Inr v"
  by (simp add: lookup_value_def split: sum.split)

lemma get_double_list_set_value_same:
  assumes "g_key_file_is_group_name g" and "g_key_file_is_key_name k"
  shows "g_key_file_get_double_list X (g_key_file_set_value (Some kf) (Some g) k v) g k =
           (case parse_doubles X (split_list_value [] v) of
              None \<Rightarrow> None | Some [] \<Rightarrow> None | Some ds \<Rightarrow> Some ds)"
proof -
  obtain kf' where s: "g_key_file_set_value (Some kf) (Some g) k v = Some kf'"
    using set_value_Some by blast
  have "lookup_value kf' g k = Some v"
    using lookup_value_set_value [OF s, of g k] assms by simp
  then have "g_key_file_get_value kf' g k = Inr v"
    by (simp add: lookup_value_Some_iff)
  with s show ?thesis by (simp add: g_key_file_get_double_list_def)
qed

lemma set_value_eq_None_iff [simp]: "g_key_file_set_value kfo go k v = None \<longleftrightarrow> kfo = None"
  using set_value_Some [of _ go k v] by (cases kfo) auto

lemma staged_store_None [simp]: "staged_store X data None = None"
  by (simp add: staged_store_def Let_def set_defs split: option.split)

lemma staged_colors_list:
  assumes sep: "\<And>d. CHR '';'' \<notin> set (ascii_dtostr X d)"
  shows "g_key_file_get_double_list X (staged_store X data kf) ''PNMixer'' ''VolMeterColor'' = None
         \<or> (\<exists>ds. g_key_file_get_double_list X (staged_store X data kf) ''PNMixer'' ''VolMeterColor''
                    = Some ds \<and> length ds = 3)"
proof (cases kf)
  case None
  then show ?thesis by (simp add: g_key_file_get_double_list_def)
next
  case (Some k0)
  obtain r g b where rgb: "vol_meter_color_button data = (r, g, b)"
    by (cases "vol_meter_color_button data") auto
  define kf5 where "kf5 =
        (prefs_set_integer ''VolMeterPos'' (vol_meter_pos_spin data)
        (prefs_set_boolean ''DrawVolMeter'' (draw_vol_check data)
          (prefs_set_integer ''TextVolumePosition'' (vol_pos_combo data)
            (prefs_set_boolean ''DisplayTextVolume'' (vol_text_check data)
              (prefs_set_string ''SliderOrientation'' (slider_orientation_combo data) kf)))))"
  have "kf5 \<noteq> None"
    unfolding kf5_def Some using set_value_Some
    by (auto simp: set_defs split: option.split)
  then obtain k5 where k5: "kf5 = Some k5" by auto
  define raw where "raw = concat (map (\<lambda>d. ascii_dtostr X d @ '';'') [r, g, b])"
  have split: "split_list_value [] raw = map (ascii_dtostr X) [r, g, b]"
    unfolding raw_def by (rule split_list_value_concat) (rule sep)
  have frame: "g_key_file_get_double_list X (staged_store X data kf) ''PNMixer'' ''VolMeterColor''
        = g_key_file_get_double_list X (g_key_file_set_value kf5 (Some ''PNMixer'') ''VolMeterColor'' raw)
            ''PNMixer'' ''VolMeterColor''"
    unfolding staged_store_def Let_def kf5_def [symmetric] rgb raw_def
    by (simp add: set_defs get_double_list_set_value_other)
  have same: "g_key_file_get_double_list X (g_key_file_set_value kf5 (Some ''PNMixer'') ''VolMeterColor'' raw)
            ''PNMixer'' ''VolMeterColor''
        = (case parse_doubles X (split_list_value [] raw) of
              None \<Rightarrow> None | Some [] \<Rightarrow> None | Some ds \<Rightarrow> Some ds)"
    unfolding k5
    by (rule get_double_list_set_value_same)
       (simp_all add: PNMixer_is_group_name g_key_file_is_key_name_def)
  show ?thesis
  proof (cases "parse_doubles X (split_list_value [] raw)")
    case None
    with frame same show ?thesis by simp
  next
    case (Some ds)
    from parse_doubles_length [OF Some] split have "length ds = 3" by simp
    with frame same Some show ?thesis by (cases ds) auto
  qed
qed

lemma staged_colors_ok:
  assumes sep: "\<And>d. CHR '';'' \<notin> set (ascii_dtostr X d)"
  shows "\<exists>c. prefs_get_vol_meter_colors X (staged_store X data kf) = Inr c"
proof -
  have d: "length default_vol_meter_colors = 3"
    by (simp add: default_vol_meter_colors_def)
  from staged_colors_list [OF sep, of data kf] d
  obtain cs where "length cs = 3"
    and "prefs_get_vol_meter_colors X (staged_store X data kf) = clamp_colors 0 3 cs"
    by (auto simp: prefs_get_vol_meter_colors_def Let_def)
  with clamp_colors_ok [of 0 3 cs] show ?thesis by auto
qed

lemma prefs_save_trace:
  "\<exists>pre. trace (prefs_save w) = trace w @ pre
     \<and> (pre = [] \<or> pre = [report_error ''Couldn't write preferences file'']
        \<or> pre = [memory_fault IndeterminateValue])"
  by (simp add: prefs_save_def Let_def split: option.split sum.split)

lemma on_ok_effects:
  "\<exists>pre. effects_since w (on_ok_button_clicked X data w) =
       pre @
       [gtk_adjustment_set_page_increment
          (prefs_get_integer (staged_store X data (keyFile w)) ''ScrollStep'' 5),
        gtk_adjustment_set_step_increment
          (prefs_get_integer (staged_store X data (keyFile w)) ''FineScrollStep'' 1),
        hotkey_effect (staged_store X data (keyFile w))] @
       (case prefs_get_vol_meter_colors X (staged_store X data (keyFile w)) of
          Inl f \<Rightarrow> [memory_fault f]
        | Inr c \<Rightarrow>
            [set_vol_meter_color (c ! 0) (c ! 1) (c ! 2), update_status_icons, update_vol_text]
            @ (if commit_alsa_change (keyFile w) data \<noteq> 0 then [do_alsa_reinit] else []))
       @ [gtk_widget_destroy_prefs_window]
     \<and> (pre = [] \<or> pre = [report_error ''Couldn't write preferences file'']
        \<or> pre = [memory_fault IndeterminateValue])"
proof -
  obtain pre where
    pre: "trace (prefs_save (w\<lparr>keyFile := staged_store X data (keyFile w)\<rparr>)) = trace w @ pre"
    and cases: "pre = [] \<or> pre = [report_error ''Couldn't write preferences file'']
        \<or> pre = [memory_fault IndeterminateValue]"
    using prefs_save_trace [of "w\<lparr>keyFile := staged_store X data (keyFile w)\<rparr>"] by auto
  show ?thesis
    by (rule exI [of _ pre])
       (simp add: on_ok_button_clicked_eq apply_prefs_trace pre cases effects_since_def)
qed

lemma is_grab_keys_simps [simp]:
  "is_grab_keys (grab_keys mk uk dk mm um dm hstep)"
  "\<not> is_grab_keys (report_error s)"
  "\<not> is_grab_keys (gtk_adjustment_set_page_increment i)"
  "\<not> is_grab_keys (gtk_adjustment_set_step_increment i)"
  "\<not> is_grab_keys (set_vol_meter_color r g b)"
  "\<not> is_grab_keys update_status_icons"
  "\<not> is_grab_keys update_vol_text"
  "\<not> is_grab_keys do_alsa_reinit"
  "\<not> is_grab_keys (memory_fault f)"
  "\<not> is_grab_keys gtk_widget_destroy_prefs_window"
  by (simp_all add: is_grab_keys_def)

lemma is_grab_keys_hotkey_effect [simp]: "is_grab_keys (hotkey_effect kf)"
  by (simp add: hotkey_effect_def is_grab_keys_def)

lemma hotkey_effect_neq [simp]:
  "hotkey_effect kf \<noteq> do_alsa_reinit" "hotkey_effect kf \<noteq> update_status_icons"
  "hotkey_effect kf \<noteq> update_vol_text"
  "do_alsa_reinit \<noteq> hotkey_effect kf" "update_status_icons \<noteq> hotkey_effect kf"
  "update_vol_text \<noteq> hotkey_effect kf"
  by (simp_all add: hotkey_effect_def)

lemma on_ok_reinit_iff:
  "do_alsa_reinit \<in> set (effects_since w (on_ok_button_clicked X data w)) \<longleftrightarrow>
     (\<exists>c. prefs_get_vol_meter_colors X (staged_store X data (keyFile w)) = Inr c)
     \<and> commit_alsa_change (keyFile w) data \<noteq> 0"
proof -
  from on_ok_effects [of w X data] obtain pre where
    e: "effects_since w (on_ok_button_clicked X data w) =
       pre @
       [gtk_adjustment_set_page_increment
          (prefs_get_integer (staged_store X data (keyFile w)) ''ScrollStep'' 5),
        gtk_adjustment_set_step_increment
          (prefs_get_integer (staged_store X data (keyFile w)) ''FineScrollStep'' 1),
        hotkey_effect (staged_store X data (keyFile w))] @
       (case prefs_get_vol_meter_colors X (staged_store X data (keyFile w)) of
          Inl f \<Rightarrow> [memory_fault f]
        | Inr c \<Rightarrow>
            [set_vol_meter_color (c ! 0) (c ! 1) (c ! 2), update_status_icons, update_vol_text]
            @ (if commit_alsa_change (keyFile w) data \<noteq> 0 then [do_alsa_reinit] else []))
       @ [gtk_widget_destroy_prefs_window]"
    and p: "pre = [] \<or> pre = [report_error ''Couldn't write preferences file'']
        \<or> pre = [memory_fault IndeterminateValue]"
    by blast
  from p show ?thesis
    unfolding e by (auto split: sum.splits)
qed

lemma on_ok_grab_keys:
  "filter is_grab_keys (effects_since w (on_ok_button_clicked X data w))
     = [hotkey_effect (staged_store X data (keyFile w))]"
proof -
  from on_ok_effects [of w X data] obtain pre where
    e: "effects_since w (on_ok_button_clicked X data w) =
       pre @
       [gtk_adjustment_set_page_increment
          (prefs_get_integer (staged_store X data (keyFile w)) ''ScrollStep'' 5),
        gtk_adjustment_set_step_increment
          (prefs_get_integer (staged_store X data (keyFile w)) ''FineScrollStep'' 1),
        hotkey_effect (staged_store X data (keyFile w))] @
       (case prefs_get_vol_meter_colors X (staged_store X data (keyFile w)) of
          Inl f \<Rightarrow> [memory_fault f]
        | Inr c \<Rightarrow>
            [set_vol_meter_color (c ! 0) (c ! 1) (c ! 2), update_status_icons, update_vol_text]
            @ (if commit_alsa_change (keyFile w) data \<noteq> 0 then [do_alsa_reinit] else []))
       @ [gtk_widget_destroy_prefs_window]"
    and p: "pre = [] \<or> pre = [report_error ''Couldn't write preferences file'']
        \<or> pre = [memory_fault IndeterminateValue]"
    by blast
  from p show ?thesis
    unfolding e by (auto split: sum.splits)
qed

lemma on_ok_view_refresh:
  assumes "prefs_get_vol_meter_colors X (staged_store X data (keyFile w)) = Inr c"
  shows "{set_vol_meter_color (c ! 0) (c ! 1) (c ! 2), update_status_icons, update_vol_text}
           \<subseteq> set (effects_since w (on_ok_button_clicked X data w))"
proof -
  from on_ok_effects [of w X data] obtain pre where
    e: "effects_since w (on_ok_button_clicked X data w) =
       pre @
       [gtk_adjustment_set_page_increment
          (prefs_get_integer (staged_store X data (keyFile w)) ''ScrollStep'' 5),
        gtk_adjustment_set_step_increment
          (prefs_get_integer (staged_store X data (keyFile w)) ''FineScrollStep'' 1),
        hotkey_effect (staged_store X data (keyFile w))] @
       (case prefs_get_vol_meter_colors X (staged_store X data (keyFile w)) of
          Inl f \<Rightarrow> [memory_fault f]
        | Inr c \<Rightarrow>
            [set_vol_meter_color (c ! 0) (c ! 1) (c ! 2), update_status_icons, update_vol_text]
            @ (if commit_alsa_change (keyFile w) data \<noteq> 0 then [do_alsa_reinit] else []))
       @ [gtk_widget_destroy_prefs_window]"
    by blast
  show ?thesis
    unfolding e assms by auto
qed

lemma commit_alsa_change_iff:
  "commit_alsa_change kf data \<noteq> 0 \<longleftrightarrow>
     (\<exists>old_card. prefs_get_string kf ''AlsaCard'' None = Some old_card
        \<and> (old_card \<noteq> card_combo data
           \<or> (\<exists>old_channel. prefs_get_channel kf (Some old_card) = Some old_channel
                 \<and> old_channel \<noteq> chan_combo data)))"
  by (auto simp: commit_alsa_change_def split: option.splits)

lemma stored_card_default:
  "prefs_get_string (keyFile (world_of (Some default_store) f)) ''AlsaCard'' None
     = Some ''default''"
  by (simp add: world_of_def default_store_def prefs_get_string_def
      g_key_file_get_string_def g_key_file_get_value_def)

section \<open>What a commit notifies\<close>

text \<open>
  C9. If no \<^verbatim>\<open>AlsaCard\<close> value can be read from the store when the OK handler starts
  (\<^verbatim>\<open>old_card\<close> is \<^verbatim>\<open>NULL\<close>), the handler never asks for the ALSA backend to be
  reinitialised, whichever card and channel are selected.
\<close>

theorem commit_without_stored_card:
  assumes "prefs_get_string (keyFile w) ''AlsaCard'' None = None"
  shows "do_alsa_reinit \<notin> set (effects_since w (on_ok_button_clicked X data w))"
  using assms by (simp add: on_ok_reinit_iff commit_alsa_change_def)

theorem commit_without_stored_card_witness:
  "prefs_get_string (keyFile (world_of (Some hotkeys_off_store) fs_prefs_dir)) ''AlsaCard'' None
     = None
   \<and> do_alsa_reinit \<notin>
       set (effects_since (world_of (Some hotkeys_off_store) fs_prefs_dir)
              (on_ok_button_clicked example_platform (example_data\<lparr>card_combo := ''hw:0''\<rparr>)
                 (world_of (Some hotkeys_off_store) fs_prefs_dir)))"
proof -
  have none: "prefs_get_string (keyFile (world_of (Some hotkeys_off_store) fs_prefs_dir))
                ''AlsaCard'' None = None"
    by (simp add: world_of_def hotkeys_off_store_def prefs_get_string_def
        g_key_file_get_string_def g_key_file_get_value_def)
  from none commit_without_stored_card [OF none] show ?thesis by simp
qed

lemma committed_store_commit:
  "staged_store example_platform example_data (Some default_store) = Some committed_store"
  by code_simp

text \<open>
  C4, as the code has it, for a commit with a card and a channel selected in the two combo
  boxes. The handler computes one flag, \<^verbatim>\<open>alsa_change\<close>, and nothing else is compared. The
  calls of a commit are, in this order: what \<^verbatim>\<open>prefs_save\<close> reports, if anything; the two
  scroll increments; one \<^verbatim>\<open>grab_keys\<close> call, with the hotkey settings of the store the
  handler has just filled; the view refresh, which is \<^verbatim>\<open>set_vol_meter_color\<close> with the
  three colour components read back from that store, \<^verbatim>\<open>update_status_icons\<close> and
  \<^verbatim>\<open>update_vol_text\<close>; then \<^verbatim>\<open>do_alsa_reinit\<close>, exactly when a card could be read from
  the store the handler started from and either the selected card is another one, or a
  channel could be read for the stored card and the selected channel is another one; and
  last the preferences window is destroyed. A value that was absent before the commit
  never counts as a change, and the hotkey registrar is called on every commit. (The
  hypothesis says that the platform's number text holds no list separator, as is the case
  for \<^verbatim>\<open>g_ascii_dtostr\<close>.)
\<close>

theorem commit_change_rules:
  assumes "\<And>d. CHR '';'' \<notin> set (ascii_dtostr X d)"
  shows "\<exists>pre c.
           prefs_get_vol_meter_colors X (staged_store X data (keyFile w)) = Inr c
           \<and> effects_since w (on_ok_button_clicked X data w) =
               pre @
               [gtk_adjustment_set_page_increment
                  (prefs_get_integer (staged_store X data (keyFile w)) ''ScrollStep'' 5),
                gtk_adjustment_set_step_increment
                  (prefs_get_integer (staged_store X data (keyFile w)) ''FineScrollStep'' 1),
                hotkey_effect (staged_store X data (keyFile w)),
                set_vol_meter_color (c ! 0) (c ! 1) (c ! 2),
                update_status_icons,
                update_vol_text]
               @ (if (\<exists>old_card.
                        prefs_get_string (keyFile w) ''AlsaCard'' None = Some old_card
                        \<and> (old_card \<noteq> card_combo data
                           \<or> (\<exists>old_channel.
                                 prefs_get_channel (keyFile w) (Some old_card)
                                   = Some old_channel
                                 \<and> old_channel \<noteq> chan_combo data)))
                  then [do_alsa_reinit] else [])
               @ [gtk_widget_destroy_prefs_window]
           \<and> (pre = [] \<or> pre = [report_error ''Couldn't write preferences file'']
              \<or> pre = [memory_fault IndeterminateValue])"
proof -
  from staged_colors_ok [OF assms, of data "keyFile w"]
  obtain c where c: "prefs_get_vol_meter_colors X (staged_store X data (keyFile w)) = Inr c"
    by blast
  from on_ok_effects [of w X data] obtain pre where
    e: "effects_since w (on_ok_button_clicked X data w) =
       pre @
       [gtk_adjustment_set_page_increment
          (prefs_get_integer (staged_store X data (keyFile w)) ''ScrollStep'' 5),
        gtk_adjustment_set_step_increment
          (prefs_get_integer (staged_store X data (keyFile w)) ''FineScrollStep'' 1),
        hotkey_effect (staged_store X data (keyFile w))] @
       (case prefs_get_vol_meter_colors X (staged_store X data (keyFile w)) of
          Inl f \<Rightarrow> [memory_fault f]
        | Inr c \<Rightarrow>
            [set_vol_meter_color (c ! 0) (c ! 1) (c ! 2), update_status_icons, update_vol_text]
            @ (if commit_alsa_change (keyFile w) data \<noteq> 0 then [do_alsa_reinit] else []))
       @ [gtk_widget_destroy_prefs_window]"
    and p: "pre = [] \<or> pre = [report_error ''Couldn't write preferences file'']
        \<or> pre = [memory_fault IndeterminateValue]"
    by blast
  have "effects_since w (on_ok_button_clicked X data w) =
               pre @
               [gtk_adjustment_set_page_increment
                  (prefs_get_integer (staged_store X data (keyFile w)) ''ScrollStep'' 5),
                gtk_adjustment_set_step_increment
                  (prefs_get_integer (staged_store X data (keyFile w)) ''FineScrollStep'' 1),
                hotkey_effect (staged_store X data (keyFile w)),
                set_vol_meter_color (c ! 0) (c ! 1) (c ! 2),
                update_status_icons,
                update_vol_text]
               @ (if (\<exists>old_card.
                        prefs_get_string (keyFile w) ''AlsaCard'' None = Some old_card
                        \<and> (old_card \<noteq> card_combo data
                           \<or> (\<exists>old_channel.
                                 prefs_get_channel (keyFile w) (Some old_card)
                                   = Some old_channel
                                 \<and> old_channel \<noteq> chan_combo data)))
                  then [do_alsa_reinit] else [])
               @ [gtk_widget_destroy_prefs_window]"
    unfolding e c commit_alsa_change_iff by simp
  with c p show ?thesis by blast
qed

theorem commit_change_rules_witness:
  "do_alsa_reinit \<in>
     set (effects_since (world_of (Some default_store) fs_prefs_dir)
            (on_ok_button_clicked example_platform (example_data\<lparr>card_combo := ''hw:0''\<rparr>)
               (world_of (Some default_store) fs_prefs_dir)))
   \<and> set_vol_meter_color (1 / 2) (1 / 4) 0 \<in>
       set (effects_since (world_of (Some default_store) fs_prefs_dir)
              (on_ok_button_clicked example_platform (example_data\<lparr>card_combo := ''hw:0''\<rparr>)
                 (world_of (Some default_store) fs_prefs_dir)))
   \<and> filter is_grab_keys
        (effects_since (world_of (Some default_store) fs_prefs_dir)
           (on_ok_button_clicked example_platform (example_data\<lparr>card_combo := ''hw:0''\<rparr>)
              (world_of (Some default_store) fs_prefs_dir)))
       = [grab_keys (- 1) (- 1) (- 1) 0 0 0 1]"
proof -
  let ?w = "world_of (Some default_store) fs_prefs_dir"
  let ?d = "example_data\<lparr>card_combo := ''hw:0''\<rparr>"
  have sep: "\<And>d. CHR '';'' \<notin> set (ascii_dtostr example_platform d)"
    by (simp add: example_platform_def decimal_dtostr_no_sep)
  have kf: "keyFile ?w = Some default_store"
    by (simp add: world_of_def)
  have old: "prefs_get_string (keyFile ?w) ''AlsaCard'' None = Some ''default''"
    by (simp add: stored_card_default)
  have card: "card_combo ?d = ''hw:0''"
    by simp
  have col: "prefs_get_vol_meter_colors example_platform
               (staged_store example_platform ?d (Some default_store)) = Inr [1 / 2, 1 / 4, 0]"
    by code_simp
  have hk: "hotkey_effect (staged_store example_platform ?d (Some default_store))
              = grab_keys (- 1) (- 1) (- 1) 0 0 0 1"
    by code_simp
  from commit_change_rules [OF sep, of ?d ?w]
  obtain pre c where
    c: "prefs_get_vol_meter_colors example_platform
          (staged_store example_platform ?d (keyFile ?w)) = Inr c"
    and e: "effects_since ?w (on_ok_button_clicked example_platform ?d ?w) =
               pre @
               [gtk_adjustment_set_page_increment
                  (prefs_get_integer (staged_store example_platform ?d (keyFile ?w))
                     ''ScrollStep'' 5),
                gtk_adjustment_set_step_increment
                  (prefs_get_integer (staged_store example_platform ?d (keyFile ?w))
                     ''FineScrollStep'' 1),
                hotkey_effect (staged_store example_platform ?d (keyFile ?w)),
                set_vol_meter_color (c ! 0) (c ! 1) (c ! 2),
                update_status_icons,
                update_vol_text]
               @ (if (\<exists>old_card.
                        prefs_get_string (keyFile ?w) ''AlsaCard'' None = Some old_card
                        \<and> (old_card \<noteq> card_combo ?d
                           \<or> (\<exists>old_channel.
                                 prefs_get_channel (keyFile ?w) (Some old_card)
                                   = Some old_channel
                                 \<and> old_channel \<noteq> chan_combo ?d)))
                  then [do_alsa_reinit] else [])
               @ [gtk_widget_destroy_prefs_window]"
    and p: "pre = [] \<or> pre = [report_error ''Couldn't write preferences file'']
              \<or> pre = [memory_fault IndeterminateValue]"
    by blast
  from c col have c3: "c = [1 / 2, 1 / 4, 0]"
    by (simp add: kf)
  have cond: "\<exists>old_card.
                 prefs_get_string (keyFile ?w) ''AlsaCard'' None = Some old_card
                 \<and> (old_card \<noteq> card_combo ?d
                    \<or> (\<exists>old_channel.
                          prefs_get_channel (keyFile ?w) (Some old_card) = Some old_channel
                          \<and> old_channel \<noteq> chan_combo ?d))"
    unfolding old card by simp
  have e': "effects_since ?w (on_ok_button_clicked example_platform ?d ?w) =
               pre @
               [gtk_adjustment_set_page_increment
                  (prefs_get_integer (staged_store example_platform ?d (Some default_store))
                     ''ScrollStep'' 5),
                gtk_adjustment_set_step_increment
                  (prefs_get_integer (staged_store example_platform ?d (Some default_store))
                     ''FineScrollStep'' 1),
                grab_keys (- 1) (- 1) (- 1) 0 0 0 1,
                set_vol_meter_color (1 / 2) (1 / 4) 0,
                update_status_icons,
                update_vol_text,
                do_alsa_reinit,
                gtk_widget_destroy_prefs_window]"
    unfolding e if_P [OF cond] unfolding kf hk c3 by simp
  from p show ?thesis
    unfolding e' by auto
qed

text \<open>
  The claim as stated fails on two inputs. First a commit that changes only the meter
  colour: the store already holds everything the window shows (card \<^verbatim>\<open>default\<close> and
  channel \<^verbatim>\<open>Master\<close> included), the user picks another colour and confirms. The commit
  leaves the store as it was but for \<^verbatim>\<open>VolMeterColor\<close>, and the hotkey registrar is called.
  Second a commit on the default store, which holds card \<^verbatim>\<open>default\<close> and no channel for
  it: the user keeps the card and selects channel \<^verbatim>\<open>Master\<close>. The staged channel differs
  from what is stored, and no reinitialisation is requested.
\<close>

theorem commit_change_rules_counterexample:
  "staged_store example_platform (example_data\<lparr>vol_meter_color_button := (1, 0, 0)\<rparr>)
     (keyFile (world_of (Some committed_store) fs_prefs_dir))
     = g_key_file_set_value (keyFile (world_of (Some committed_store) fs_prefs_dir))
         (Some ''PNMixer'') ''VolMeterColor'' ''1;0;0;''
   \<and> filter is_grab_keys
        (effects_since (world_of (Some committed_store) fs_prefs_dir)
           (on_ok_button_clicked example_platform
              (example_data\<lparr>vol_meter_color_button := (1, 0, 0)\<rparr>)
              (world_of (Some committed_store) fs_prefs_dir)))
       = [grab_keys (- 1) (- 1) (- 1) 0 0 0 1]
   \<and> prefs_get_string (keyFile (world_of (Some default_store) fs_prefs_dir)) ''AlsaCard'' None
       = Some (card_combo example_data)
   \<and> prefs_get_channel (keyFile (world_of (Some default_store) fs_prefs_dir)) (Some ''default'')
       \<noteq> Some (chan_combo example_data)
   \<and> do_alsa_reinit \<notin>
       set (effects_since (world_of (Some default_store) fs_prefs_dir)
              (on_ok_button_clicked example_platform example_data
                 (world_of (Some default_store) fs_prefs_dir)))"
proof -
  have kf: "keyFile (world_of (Some committed_store) fs_prefs_dir) = Some committed_store"
    by (simp add: world_of_def)
  have only: "staged_store example_platform
                (example_data\<lparr>vol_meter_color_button := (1, 0, 0)\<rparr>) (Some committed_store)
              = g_key_file_set_value (Some committed_store) (Some ''PNMixer'')
                  ''VolMeterColor'' ''1;0;0;''"
    by code_simp
  have hk: "hotkey_effect
              (staged_store example_platform
                 (example_data\<lparr>vol_meter_color_button := (1, 0, 0)\<rparr>) (Some committed_store))
              = grab_keys (- 1) (- 1) (- 1) 0 0 0 1"
    by code_simp
  have one: "filter is_grab_keys
        (effects_since (world_of (Some committed_store) fs_prefs_dir)
           (on_ok_button_clicked example_platform
              (example_data\<lparr>vol_meter_color_button := (1, 0, 0)\<rparr>)
              (world_of (Some committed_store) fs_prefs_dir)))
       = [grab_keys (- 1) (- 1) (- 1) 0 0 0 1]"
    unfolding on_ok_grab_keys kf hk by (rule refl)
  have chan: "prefs_get_channel (keyFile (world_of (Some default_store) fs_prefs_dir))
                (Some ''default'') = None"
    by (simp add: world_of_def default_store_def prefs_get_channel_def
        g_key_file_get_string_def g_key_file_get_value_def)
  have "commit_alsa_change (keyFile (world_of (Some default_store) fs_prefs_dir)) example_data
          = 0"
    using chan by (simp add: commit_alsa_change_def stored_card_default example_data_def)
  with chan have two:
    "prefs_get_string (keyFile (world_of (Some default_store) fs_prefs_dir)) ''AlsaCard'' None
       = Some (card_combo example_data)
     \<and> prefs_get_channel (keyFile (world_of (Some default_store) fs_prefs_dir))
         (Some ''default'') \<noteq> Some (chan_combo example_data)
     \<and> do_alsa_reinit \<notin>
       set (effects_since (world_of (Some default_store) fs_prefs_dir)
              (on_ok_button_clicked example_platform example_data
                 (world_of (Some default_store) fs_prefs_dir)))"
    by (simp add: on_ok_reinit_iff stored_card_default example_data_def)
  from only have only': "staged_store example_platform
       (example_data\<lparr>vol_meter_color_button := (1, 0, 0)\<rparr>)
       (keyFile (world_of (Some committed_store) fs_prefs_dir))
     = g_key_file_set_value (keyFile (world_of (Some committed_store) fs_prefs_dir))
         (Some ''PNMixer'') ''VolMeterColor'' ''1;0;0;''"
    unfolding kf .
  show ?thesis by (rule conjI [OF only' conjI [OF one two]])
qed

section \<open>The getters and their defaults\<close>

text \<open>
  On a loaded store every typed getter falls back to the default it is given, both when
  the key (or the whole group) is absent and when the stored text does not read as a
  value of the type.
\<close>

lemma getters_default_when_absent:
  assumes "lookup_value kf ''PNMixer'' key = None"
  shows "prefs_get_boolean (Some kf) key b = b \<and> prefs_get_integer (Some kf) key i = i
         \<and> prefs_get_double X (Some kf) key d = d \<and> prefs_get_string (Some kf) key s = s"
  using assms
  by (auto simp: lookup_value_def prefs_get_boolean_def prefs_get_integer_def
      prefs_get_double_def prefs_get_string_def g_key_file_get_boolean_def
      g_key_file_get_integer_def g_key_file_get_double_def g_key_file_get_string_def
      split: sum.splits)

lemma getters_default_when_wrong_type:
  assumes "lookup_value kf ''PNMixer'' key = Some raw"
  shows "(g_key_file_parse_value_as_boolean raw = Inl e \<longrightarrow> prefs_get_boolean (Some kf) key b = b)
       \<and> (g_key_file_parse_value_as_integer raw = Inl e \<longrightarrow> prefs_get_integer (Some kf) key i = i)
       \<and> (parse_value_as_double X raw = None \<longrightarrow> prefs_get_double X (Some kf) key d = d)
       \<and> (\<not> g_utf8_validate raw \<or> g_key_file_parse_value_as_string raw = Inl e
            \<longrightarrow> prefs_get_string (Some kf) key s = s)"
  using assms
  by (auto simp: lookup_value_def prefs_get_boolean_def prefs_get_integer_def
      prefs_get_double_def prefs_get_string_def g_key_file_get_boolean_def
      g_key_file_get_integer_def g_key_file_get_double_def g_key_file_get_string_def
      split: sum.splits)

lemma load_corrupt:
  "g_key_file_load_from_data ''ScrollStep=10'' = Inl G_KEY_FILE_ERROR_GROUP_NOT_FOUND"
  by (simp add: g_key_file_load_from_data_def g_key_file_parse_line_def g_ascii_isspace_def
      g_key_file_line_is_comment_def g_key_file_line_is_group_def
      g_key_file_line_is_key_value_pair_def g_key_file_parse_key_value_pair_def)

lemma prefs_load_corrupt:
  "keyFile (prefs_load (world_of None fs_corrupt_config)) = None
   \<and> trace (prefs_load (world_of None fs_corrupt_config))
       = [report_error ''Couldn't load preferences file'']"
  by (simp add: prefs_load_def Let_def config_filename_def world_of_def fs_corrupt_config_def
      fs_prefs_dir_def g_file_test_EXISTS_def g_key_file_load_from_file_def load_corrupt)

text \<open>
  C1. The claim says that a getter returns the caller's default also after the store
  failed to load. \<^verbatim>\<open>prefs_load\<close> leaves \<^verbatim>\<open>keyFile\<close> at \<^verbatim>\<open>NULL\<close> then, and the getters
  test only \<^verbatim>\<open>error\<close>, which GLib does not set for a \<^verbatim>\<open>NULL\<close> key file. For a config
  file that starts with a key instead of a group header the load fails, and the four
  getters return \<^verbatim>\<open>FALSE\<close>, -1, -1.0 and \<^verbatim>\<open>NULL\<close> where the defaults given are
  \<^verbatim>\<open>TRUE\<close>, 5, 5.0 and \<^verbatim>\<open>"vertical"\<close>.
\<close>

theorem getters_after_failed_load:
  "keyFile (prefs_load (world_of None fs_corrupt_config)) = None
   \<and> prefs_get_boolean (keyFile (prefs_load (world_of None fs_corrupt_config)))
        ''HotkeyNotifications'' True = False
   \<and> prefs_get_integer (keyFile (prefs_load (world_of None fs_corrupt_config)))
        ''ScrollStep'' 5 = - 1
   \<and> prefs_get_double example_platform (keyFile (prefs_load (world_of None fs_corrupt_config)))
        ''ScrollStep'' 5 = - 1
   \<and> prefs_get_string (keyFile (prefs_load (world_of None fs_corrupt_config)))
        ''SliderOrientation'' (Some ''vertical'') = None"
  by (simp add: prefs_load_corrupt prefs_get_boolean_def prefs_get_integer_def
      prefs_get_double_def prefs_get_string_def g_key_file_get_boolean_def
      g_key_file_get_integer_def g_key_file_get_double_def g_key_file_get_string_def)

section \<open>The volume meter colours\<close>

text \<open>
  Whenever \<^verbatim>\<open>prefs_get_vol_meter_colors\<close> stays inside the array, the first three
  components it returns lie in [0, 1], and it returns the built-in triple when GLib
  returns no list. The bounds are those of components that are numbers, as all doubles
  of this development are: a stored \<^verbatim>\<open>nan\<close> is neither below 0 nor above 1 for the two
  tests of the C loop, which hands it on as it is.
\<close>

lemma clamp_colors_length:
  "clamp_colors i n cs = Inr cs' \<Longrightarrow>
     length cs' = length cs \<and> (0 < n \<longrightarrow> i + n \<le> length cs)"
  by (induction i n cs rule: clamp_colors.induct) (auto split: if_splits)

lemma clamp_unit_range: "0 \<le> clamp_unit c \<and> clamp_unit c \<le> 1"
  by (simp add: clamp_unit_def Let_def)

lemma clamp_colors_nth:
  "clamp_colors i n cs = Inr cs' \<Longrightarrow> j < length cs \<Longrightarrow>
     cs' ! j = (if i \<le> j \<and> j < i + n then clamp_unit (cs ! j) else cs ! j)"
proof (induction i n cs rule: clamp_colors.induct)
  case (1 i colors)
  then show ?case by simp
next
  case (2 i n colors)
  then show ?case by (auto split: if_splits simp: nth_list_update)
qed

lemma vol_meter_colors_clamped:
  assumes "prefs_get_vol_meter_colors X kf = Inr c" and "j < 3"
  shows "3 \<le> length c \<and> 0 \<le> c ! j \<and> c ! j \<le> 1"
proof -
  define cs where "cs = (case g_key_file_get_double_list X kf ''PNMixer'' ''VolMeterColor'' of
               None \<Rightarrow> default_vol_meter_colors | Some cs \<Rightarrow> cs)"
  from assms have c: "clamp_colors 0 3 cs = Inr c"
    by (simp add: prefs_get_vol_meter_colors_def cs_def)
  from clamp_colors_length [OF c] have len: "length c = length cs" "3 \<le> length cs" by auto
  with clamp_colors_nth [OF c, of j] assms(2) clamp_unit_range [of "cs ! j"] show ?thesis
    by auto
qed

lemma vol_meter_colors_default:
  assumes "g_key_file_get_double_list X kf ''PNMixer'' ''VolMeterColor'' = None"
  shows "prefs_get_vol_meter_colors X kf = Inr default_vol_meter_colors"
  using assms
  by (simp add: prefs_get_vol_meter_colors_def default_vol_meter_colors_def
      numeral_3_eq_3 clamp_unit_def)

lemma decimal_strtod_half: "decimal_strtod ''0.5'' = Some (1 / 2)"
  by (simp add: decimal_strtod_def isdigit_def digits_value_def)

text \<open>
  C2. The claim says that three clamped components come back for every stored state,
  lists shorter than three included. For the entry \<^verbatim>\<open>VolMeterColor=0.5\<close> GLib returns an
  array of one double, and the loop of \<^verbatim>\<open>prefs_get_vol_meter_colors\<close> goes on to
  \<^verbatim>\<open>colors[1]\<close>, outside the allocation.
\<close>

theorem vol_meter_colors_short_list:
  "g_key_file_get_double_list example_platform
      (Some [(''PNMixer'', [(''VolMeterColor'', ''0.5'')])]) ''PNMixer'' ''VolMeterColor''
     = Some [1 / 2]
   \<and> prefs_get_vol_meter_colors example_platform
      (Some [(''PNMixer'', [(''VolMeterColor'', ''0.5'')])]) = Inl OutOfBounds"
  by (simp add: prefs_get_vol_meter_colors_def g_key_file_get_double_list_def
      g_key_file_get_value_def example_platform_def decimal_strtod_half numeral_3_eq_3
      clamp_unit_def)

section \<open>The channel of a card\<close>

text \<open>
  C8, as the code has it. \<^verbatim>\<open>prefs_get_channel\<close> takes no default: it is the string get
  on the card's own group whose fallback is \<^verbatim>\<open>NULL\<close>. It returns \<^verbatim>\<open>NULL\<close> for a \<^verbatim>\<open>NULL\<close>
  card, after a failed load and whenever no \<^verbatim>\<open>Channel\<close> value can be found for the card
  (absent group or absent key), and the stored channel when there is a readable one; on
  the group \<^verbatim>\<open>PNMixer\<close> it coincides with \<^verbatim>\<open>prefs_get_string\<close> called with default \<^verbatim>\<open>NULL\<close>.
\<close>

theorem prefs_get_channel_null_default:
  "prefs_get_channel kfo None = None
   \<and> prefs_get_channel None (Some c) = None
   \<and> (lookup_value kf c ''Channel'' = None \<longrightarrow> prefs_get_channel (Some kf) (Some c) = None)
   \<and> (lookup_value kf c ''Channel'' = Some raw \<and> g_utf8_validate raw
        \<and> g_key_file_parse_value_as_string raw = Inr s
        \<longrightarrow> prefs_get_channel (Some kf) (Some c) = Some s)
   \<and> prefs_get_channel kfo (Some ''PNMixer'') = prefs_get_string kfo ''Channel'' None"
  by (auto simp: prefs_get_channel_def prefs_get_string_def g_key_file_get_string_def
      lookup_value_def split: option.splits sum.splits)

theorem prefs_get_channel_null_default_witness:
  "lookup_value default_store ''default'' ''Channel'' = None
   \<and> prefs_get_channel (Some default_store) (Some ''default'') = None
   \<and> lookup_value [(''default'', [(''Channel'', ''Master'')])] ''default'' ''Channel''
       = Some ''Master''
   \<and> prefs_get_channel (Some [(''default'', [(''Channel'', ''Master'')])]) (Some ''default'')
       = Some ''Master''"
proof -
  have a: "lookup_value default_store ''default'' ''Channel'' = None"
    by (simp add: lookup_value_def default_store_def g_key_file_get_value_def)
  have b: "lookup_value [(''default'', [(''Channel'', ''Master'')])] ''default'' ''Channel''
             = Some ''Master''"
    by (simp add: lookup_value_def g_key_file_get_value_def)
  have c: "g_utf8_validate ''Master''" by simp
  have d: "g_key_file_parse_value_as_string ''Master'' = Inr ''Master''" by simp
  from a prefs_get_channel_null_default [where kf = default_store and c = "''default''"]
  have "prefs_get_channel (Some default_store) (Some ''default'') = None" by blast
  moreover from b c d
    prefs_get_channel_null_default
      [where kf = "[(''default'', [(''Channel'', ''Master'')])]" and c = "''default''"
        and raw = "''Master''" and s = "''Master''"]
  have "prefs_get_channel (Some [(''default'', [(''Channel'', ''Master'')])]) (Some ''default'')
          = Some ''Master''" by blast
  ultimately show ?thesis using a b by simp
qed

text \<open>
  The claim as stated fails on the default store, which has no \<^verbatim>\<open>Channel\<close> for the card
  \<^verbatim>\<open>default\<close>: a string get with a default returns that default for an absent key, and
  \<^verbatim>\<open>prefs_get_channel\<close> returns \<^verbatim>\<open>NULL\<close>, the unset result.
\<close>

theorem prefs_get_channel_counterexample:
  "prefs_get_string (Some default_store) ''Channel'' (Some ''Master'') = Some ''Master''
   \<and> prefs_get_channel (Some default_store) (Some ''default'') = None"
  by (simp add: prefs_get_string_def prefs_get_channel_def g_key_file_get_string_def
      g_key_file_get_value_def default_store_def)

section \<open>The hotkey dialog\<close>

lemma current_event_device_emit [simp]: "current_event_device (emit e w) = current_event_device w"
  by (simp add: emit_def)

lemma grab_succeeds_emit [simp]: "grab_succeeds (emit e w) = grab_succeeds w"
  by (simp add: emit_def)

lemma key_text_eq:
  "key_text X ev =
     accelerator_name X
       (fst (keymap_translate_keyboard_state X (ev_hardware_keycode ev) (ev_state ev)
               (ev_group ev)))
       ((ev_state ev
           AND NOT (snd (keymap_translate_keyboard_state X (ev_hardware_keycode ev)
                           (ev_state ev) (ev_group ev))))
        AND accelerator_get_default_mod_mask X)"
  by (simp add: key_text_def Let_def split: prod.split)

lemma trace_hotkey_released:
  "trace (hotkey_released X w)
     = trace w @ [ungrab_request X (current_event_device w), gtk_dialog_response_OK]"
  by (simp add: hotkey_released_def keyboard_ungrab_def)

lemma dialog_run_release:
  "\<exists>w'. gtk_dialog_run X (KeyRelease r # rest) (data, w) = Some (GTK_RESPONSE_OK, data, w')
        \<and> trace w' = trace w @ [ungrab_request X (Some (ev_device r)), gtk_dialog_response_OK]
        \<and> current_event_device w' = current_event_device w"
  by (simp add: trace_hotkey_released)

lemma dialog_run_presses:
  "\<exists>w'. gtk_dialog_run X (map KeyPress ps @ KeyRelease r # rest) (data, w) =
          Some (GTK_RESPONSE_OK,
                data\<lparr>hotkey_key_label := candidate_after X ps (hotkey_key_label data)\<rparr>, w')
        \<and> trace w' = trace w
             @ map (\<lambda>ev. gtk_label_set_text ''hotkey_key_label'' (key_text X ev)) ps
             @ [ungrab_request X (Some (ev_device r)), gtk_dialog_response_OK]
        \<and> current_event_device w' = current_event_device w"
proof (induction ps arbitrary: data w)
  case Nil
  from dialog_run_release [of X r rest data w]
  show ?case by (simp add: candidate_after_def)
next
  case (Cons p ps)
  let ?d = "data\<lparr>hotkey_key_label := key_text X p\<rparr>"
  let ?w = "emit (gtk_label_set_text ''hotkey_key_label'' (key_text X p)) w"
  from Cons.IH [of ?d ?w] obtain w' where
    r: "gtk_dialog_run X (map KeyPress ps @ KeyRelease r # rest) (?d, ?w) =
          Some (GTK_RESPONSE_OK,
                ?d\<lparr>hotkey_key_label := candidate_after X ps (hotkey_key_label ?d)\<rparr>, w')"
    and t: "trace w' = trace ?w
             @ map (\<lambda>ev. gtk_label_set_text ''hotkey_key_label'' (key_text X ev)) ps
             @ [ungrab_request X (Some (ev_device r)), gtk_dialog_response_OK]"
    and c: "current_event_device w' = current_event_device ?w"
    by blast
  have "gtk_dialog_run X (map KeyPress (p # ps) @ KeyRelease r # rest) (data, w) =
          Some (GTK_RESPONSE_OK,
                data\<lparr>hotkey_key_label := candidate_after X (p # ps) (hotkey_key_label data)\<rparr>,
                w')"
    using r by (simp add: hotkey_pressed_def candidate_after_def)
  moreover have "trace w' = trace w
             @ map (\<lambda>ev. gtk_label_set_text ''hotkey_key_label'' (key_text X ev)) (p # ps)
             @ [ungrab_request X (Some (ev_device r)), gtk_dialog_response_OK]"
    using t by simp
  moreover have "current_event_device w' = current_event_device w"
    using c by simp
  ultimately show ?case by blast
qed

lemma is_ungrab_simps [simp]:
  "is_ungrab (ungrab_request X d)"
  "\<not> is_ungrab (grab_request X d)"
  "\<not> is_ungrab (gtk_label_set_text l t)"
  "\<not> is_ungrab gtk_dialog_response_OK"
  "\<not> is_ungrab gtk_widget_hide_hotkey_dialog"
  by (simp_all add: is_ungrab_def ungrab_request_def grab_request_def)

lemma acquire_hotkey_committed:
  assumes wn: "widget_name \<in> {''mute_eventbox'', ''up_eventbox'', ''down_eventbox''}"
    and granted: "grab_succeeds w"
    and run: "gtk_dialog_run X evs
                (data\<lparr>hotkey_key_label := hotkey_title widget_name\<rparr>,
                 emit (grab_request X (current_event_device w))
                   (emit (gtk_label_set_text ''hotkey_key_label'' (hotkey_title widget_name)) w))
              = Some (GTK_RESPONSE_OK, data2, w3)"
  shows "\<exists>data'.
           acquire_hotkey X widget_name evs (data, w)
             = Some (data',
                     emit gtk_widget_hide_hotkey_dialog
                       (emit (gtk_label_set_text (hotkey_label_name widget_name)
                                (staged_text (hotkey_key_label data2)))
                          (emit (ungrab_request X (current_event_device w3)) w3)))
           \<and> hotkey_label widget_name data' = staged_text (hotkey_key_label data2)"
proof -
  from wn consider "widget_name = ''mute_eventbox''" | "widget_name = ''up_eventbox''"
    | "widget_name = ''down_eventbox''" by blast
  then show ?thesis
  proof cases
    case 1
    with granted run show ?thesis
      by (simp add: acquire_hotkey_def Let_def keyboard_grab_def keyboard_ungrab_def
          hotkey_title_def hotkey_label_name_def hotkey_label_def staged_text_def)
  next
    case 2
    with granted run show ?thesis
      by (simp add: acquire_hotkey_def Let_def keyboard_grab_def keyboard_ungrab_def
          hotkey_title_def hotkey_label_name_def hotkey_label_def staged_text_def)
  next
    case 3
    with granted run show ?thesis
      by (simp add: acquire_hotkey_def Let_def keyboard_grab_def keyboard_ungrab_def
          hotkey_title_def hotkey_label_name_def hotkey_label_def staged_text_def)
  qed
qed

lemma capture_commit:
  assumes wn: "widget_name \<in> {''mute_eventbox'', ''up_eventbox'', ''down_eventbox''}"
    and granted: "grab_succeeds w"
  shows "\<exists>data' w'.
           acquire_hotkey X widget_name (map KeyPress ps @ KeyRelease r # rest) (data, w)
             = Some (data', w')
           \<and> effects_since w w' =
               [gtk_label_set_text ''hotkey_key_label'' (hotkey_title widget_name),
                grab_request X (current_event_device w)]
               @ map (\<lambda>ev. gtk_label_set_text ''hotkey_key_label'' (key_text X ev)) ps
               @ [ungrab_request X (Some (ev_device r)), gtk_dialog_response_OK,
                  ungrab_request X (current_event_device w),
                  gtk_label_set_text (hotkey_label_name widget_name)
                    (staged_text (candidate_after X ps (hotkey_title widget_name))),
                  gtk_widget_hide_hotkey_dialog]
           \<and> hotkey_label widget_name data'
               = staged_text (candidate_after X ps (hotkey_title widget_name))"
proof -
  let ?w2 = "emit (grab_request X (current_event_device w))
               (emit (gtk_label_set_text ''hotkey_key_label'' (hotkey_title widget_name)) w)"
  let ?data1 = "data\<lparr>hotkey_key_label := hotkey_title widget_name\<rparr>"
  let ?data2 = "?data1\<lparr>hotkey_key_label := candidate_after X ps (hotkey_key_label ?data1)\<rparr>"
  from dialog_run_presses [of X ps r rest ?data1 ?w2]
  obtain w3 where
    run: "gtk_dialog_run X (map KeyPress ps @ KeyRelease r # rest) (?data1, ?w2) =
            Some (GTK_RESPONSE_OK, ?data2, w3)"
    and tr: "trace w3 = trace ?w2
               @ map (\<lambda>ev. gtk_label_set_text ''hotkey_key_label'' (key_text X ev)) ps
               @ [ungrab_request X (Some (ev_device r)), gtk_dialog_response_OK]"
    and dev: "current_event_device w3 = current_event_device ?w2"
    by blast
  from acquire_hotkey_committed [OF wn granted run]
  obtain data' where
    acq: "acquire_hotkey X widget_name (map KeyPress ps @ KeyRelease r # rest) (data, w)
             = Some (data',
                     emit gtk_widget_hide_hotkey_dialog
                       (emit (gtk_label_set_text (hotkey_label_name widget_name)
                                (staged_text (hotkey_key_label ?data2)))
                          (emit (ungrab_request X (current_event_device w3)) w3)))"
    and lab: "hotkey_label widget_name data' = staged_text (hotkey_key_label ?data2)"
    by blast
  have eff: "effects_since w
               (emit gtk_widget_hide_hotkey_dialog
                       (emit (gtk_label_set_text (hotkey_label_name widget_name)
                                (staged_text (hotkey_key_label ?data2)))
                          (emit (ungrab_request X (current_event_device w3)) w3)))
             = [gtk_label_set_text ''hotkey_key_label'' (hotkey_title widget_name),
                grab_request X (current_event_device w)]
               @ map (\<lambda>ev. gtk_label_set_text ''hotkey_key_label'' (key_text X ev)) ps
               @ [ungrab_request X (Some (ev_device r)), gtk_dialog_response_OK,
                  ungrab_request X (current_event_device w),
                  gtk_label_set_text (hotkey_label_name widget_name)
                    (staged_text (candidate_after X ps (hotkey_title widget_name))),
                  gtk_widget_hide_hotkey_dialog]"
    by (simp add: effects_since_def tr dev)
  from lab have lab': "hotkey_label widget_name data'
               = staged_text (candidate_after X ps (hotkey_title widget_name))"
    by simp
  from acq eff lab' show ?thesis by blast
qed

lemma char_of_letters:
  "char_of (97 :: nat) = CHR ''a''" "char_of (99 :: nat) = CHR ''c''"
  "char_of (65 :: nat) = CHR ''A''" "char_of (67 :: nat) = CHR ''C''"
  by code_simp+

section \<open>Capturing a hotkey: the grab and the staged binding\<close>

text \<open>
  C3. A capture that ends with a key release runs as follows, for any key presses before
  the release. The handler of the release, \<^verbatim>\<open>hotkey_released\<close>, first of all requests the
  ungrab, in the GTK 3 build for the device of the event it is handling, and then emits
  the OK response. Back in \<^verbatim>\<open>acquire_hotkey\<close>, once \<^verbatim>\<open>gtk_dialog_run\<close> has returned, the
  ungrab is requested a second time, in the GTK 3 build for the device of the event that
  opened the dialog, which is the device the grab was requested for. Only then the
  accelerator text is written into the hotkey label of the action. So the release is
  requested twice on every committed capture, not once: as the first thing the handler of
  the release does and again after the dialog has returned, both before the write and
  whatever the write does.
\<close>

theorem capture_commit_releases_grab_twice:
  assumes "widget_name \<in> {''mute_eventbox'', ''up_eventbox'', ''down_eventbox''}"
    and "grab_succeeds w"
  shows "effects_since w0 (hotkey_released X w0)
           = [ungrab_request X (current_event_device w0), gtk_dialog_response_OK]
         \<and> (\<exists>data' w'.
               acquire_hotkey X widget_name (map KeyPress ps @ KeyRelease r # rest) (data, w)
                 = Some (data', w')
               \<and> effects_since w w' =
                   [gtk_label_set_text ''hotkey_key_label'' (hotkey_title widget_name),
                    grab_request X (current_event_device w)]
                   @ map (\<lambda>ev. gtk_label_set_text ''hotkey_key_label'' (key_text X ev)) ps
                   @ [ungrab_request X (Some (ev_device r)), gtk_dialog_response_OK,
                      ungrab_request X (current_event_device w),
                      gtk_label_set_text (hotkey_label_name widget_name)
                        (staged_text (candidate_after X ps (hotkey_title widget_name))),
                      gtk_widget_hide_hotkey_dialog]
               \<and> filter is_ungrab (effects_since w w')
                   = [ungrab_request X (Some (ev_device r)),
                      ungrab_request X (current_event_device w)])"
proof -
  from capture_commit [OF assms, of X ps r rest data]
  obtain data' w' where
    run: "acquire_hotkey X widget_name (map KeyPress ps @ KeyRelease r # rest) (data, w)
            = Some (data', w')"
    and eff: "effects_since w w' =
               [gtk_label_set_text ''hotkey_key_label'' (hotkey_title widget_name),
                grab_request X (current_event_device w)]
               @ map (\<lambda>ev. gtk_label_set_text ''hotkey_key_label'' (key_text X ev)) ps
               @ [ungrab_request X (Some (ev_device r)), gtk_dialog_response_OK,
                  ungrab_request X (current_event_device w),
                  gtk_label_set_text (hotkey_label_name widget_name)
                    (staged_text (candidate_after X ps (hotkey_title widget_name))),
                  gtk_widget_hide_hotkey_dialog]"
    by blast
  have twice: "filter is_ungrab (effects_since w w')
                 = [ungrab_request X (Some (ev_device r)),
                    ungrab_request X (current_event_device w)]"
    unfolding eff by (simp add: filter_map o_def)
  have rel: "effects_since w0 (hotkey_released X w0)
           = [ungrab_request X (current_event_device w0), gtk_dialog_response_OK]"
    by (simp add: effects_since_def trace_hotkey_released)
  from run eff twice rel show ?thesis by blast
qed

theorem capture_commit_releases_grab_twice_witness:
  "effects_since (world_of (Some default_store) fs_prefs_dir)
     (snd (the (acquire_hotkey example_platform ''up_eventbox''
                  [KeyPress \<lparr>ev_hardware_keycode = 0x61, ev_state = 0, ev_group = 0,
                             ev_device = 3\<rparr>,
                   KeyRelease \<lparr>ev_hardware_keycode = 0x61, ev_state = 0, ev_group = 0,
                               ev_device = 3\<rparr>]
                  (example_data, world_of (Some default_store) fs_prefs_dir))))
   = [gtk_label_set_text ''hotkey_key_label'' ''Volume Up'', gdk_device_grab (Some 2),
      gtk_label_set_text ''hotkey_key_label'' ''a'',
      gdk_device_ungrab (Some 3), gtk_dialog_response_OK, gdk_device_ungrab (Some 2),
      gtk_label_set_text ''up_hotkey_label'' ''a'', gtk_widget_hide_hotkey_dialog]"
proof -
  have wn: "''up_eventbox'' \<in> {''mute_eventbox'', ''up_eventbox'', ''down_eventbox''}"
    by simp
  have granted: "grab_succeeds (world_of (Some default_store) fs_prefs_dir)"
    by (simp add: world_of_def)
  have dev: "current_event_device (world_of (Some default_store) fs_prefs_dir) = Some 2"
    by (simp add: world_of_def)
  have a: "key_text example_platform
             \<lparr>ev_hardware_keycode = 0x61, ev_state = 0, ev_group = 0, ev_device = 3\<rparr>
             = ''a''"
    by (simp add: key_text_def example_platform_def example_accelerator_name_def
        char_of_letters)
  have g: "grab_request example_platform (Some 2) = gdk_device_grab (Some 2)"
    "ungrab_request example_platform (Some 2) = gdk_device_ungrab (Some 2)"
    "ungrab_request example_platform (Some 3) = gdk_device_ungrab (Some 3)"
    by (simp_all add: grab_request_def ungrab_request_def example_platform_def)
  from capture_commit_releases_grab_twice [OF wn granted,
      of "world_of (Some default_store) fs_prefs_dir" example_platform
        "[\<lparr>ev_hardware_keycode = 0x61, ev_state = 0, ev_group = 0, ev_device = 3\<rparr>]"
        "\<lparr>ev_hardware_keycode = 0x61, ev_state = 0, ev_group = 0, ev_device = 3\<rparr>" "[]"
        example_data]
  show ?thesis
    by (auto simp: a g dev hotkey_title_def hotkey_label_name_def staged_text_def
        candidate_after_def strcasecmp_eq_def)
qed

text \<open>
  A committed capture in the GTK 3 build, opened by an event of device 2 and ended by the
  release of a key of device 3, and the same capture in the GTK 2 build. Each has two
  requests to release the grab, and in the first the request made on the key release names
  another device than the grab.
\<close>

theorem capture_commit_counterexample:
  "length (filter is_ungrab
     (effects_since (world_of (Some default_store) fs_prefs_dir)
        (snd (the (acquire_hotkey example_platform ''mute_eventbox''
                     [KeyPress \<lparr>ev_hardware_keycode = 0x61, ev_state = 0, ev_group = 0,
                                ev_device = 3\<rparr>,
                      KeyRelease \<lparr>ev_hardware_keycode = 0x61, ev_state = 0, ev_group = 0,
                                  ev_device = 3\<rparr>]
                     (example_data, world_of (Some default_store) fs_prefs_dir)))))) = 2
   \<and> filter (\<lambda>e. is_ungrab e \<or> e = gdk_device_grab (Some 2))
       (effects_since (world_of (Some default_store) fs_prefs_dir)
          (snd (the (acquire_hotkey example_platform ''mute_eventbox''
                       [KeyPress \<lparr>ev_hardware_keycode = 0x61, ev_state = 0, ev_group = 0,
                                  ev_device = 3\<rparr>,
                        KeyRelease \<lparr>ev_hardware_keycode = 0x61, ev_state = 0, ev_group = 0,
                                    ev_device = 3\<rparr>]
                       (example_data, world_of (Some default_store) fs_prefs_dir)))))
     = [gdk_device_grab (Some 2), gdk_device_ungrab (Some 3), gdk_device_ungrab (Some 2)]
   \<and> filter is_ungrab
       (effects_since (world_of (Some default_store) fs_prefs_dir)
          (snd (the (acquire_hotkey (example_platform\<lparr>WITH_GTK3 := False\<rparr>) ''mute_eventbox''
                       [KeyPress \<lparr>ev_hardware_keycode = 0x61, ev_state = 0, ev_group = 0,
                                  ev_device = 3\<rparr>,
                        KeyRelease \<lparr>ev_hardware_keycode = 0x61, ev_state = 0, ev_group = 0,
                                    ev_device = 3\<rparr>]
                       (example_data, world_of (Some default_store) fs_prefs_dir)))))
     = [gdk_keyboard_ungrab, gdk_keyboard_ungrab]"
proof -
  have wn: "''mute_eventbox'' \<in> {''mute_eventbox'', ''up_eventbox'', ''down_eventbox''}"
    by simp
  have granted: "grab_succeeds (world_of (Some default_store) fs_prefs_dir)"
    by (simp add: world_of_def)
  have dev: "current_event_device (world_of (Some default_store) fs_prefs_dir) = Some 2"
    by (simp add: world_of_def)
  have g: "grab_request example_platform (Some 2) = gdk_device_grab (Some 2)"
    "ungrab_request example_platform (Some 2) = gdk_device_ungrab (Some 2)"
    "ungrab_request example_platform (Some 3) = gdk_device_ungrab (Some 3)"
    "grab_request (example_platform\<lparr>WITH_GTK3 := False\<rparr>) (Some 2) = gdk_keyboard_grab"
    "ungrab_request (example_platform\<lparr>WITH_GTK3 := False\<rparr>) (Some 2) = gdk_keyboard_ungrab"
    "ungrab_request (example_platform\<lparr>WITH_GTK3 := False\<rparr>) (Some 3) = gdk_keyboard_ungrab"
    by (simp_all add: grab_request_def ungrab_request_def example_platform_def)
  have u: "is_ungrab (gdk_device_ungrab (Some 2))" "is_ungrab (gdk_device_ungrab (Some 3))"
    "is_ungrab gdk_keyboard_ungrab" "\<not> is_ungrab (gdk_device_grab (Some 2))"
    "\<not> is_ungrab gdk_keyboard_grab"
    by (simp_all add: is_ungrab_def)
  from capture_commit [OF wn granted, of example_platform
      "[\<lparr>ev_hardware_keycode = 0x61, ev_state = 0, ev_group = 0, ev_device = 3\<rparr>]"
      "\<lparr>ev_hardware_keycode = 0x61, ev_state = 0, ev_group = 0, ev_device = 3\<rparr>" "[]"
      example_data]
  have gtk3: "filter (\<lambda>e. is_ungrab e \<or> e = gdk_device_grab (Some 2))
       (effects_since (world_of (Some default_store) fs_prefs_dir)
          (snd (the (acquire_hotkey example_platform ''mute_eventbox''
                       [KeyPress \<lparr>ev_hardware_keycode = 0x61, ev_state = 0, ev_group = 0,
                                  ev_device = 3\<rparr>,
                        KeyRelease \<lparr>ev_hardware_keycode = 0x61, ev_state = 0, ev_group = 0,
                                    ev_device = 3\<rparr>]
                       (example_data, world_of (Some default_store) fs_prefs_dir)))))
     = [gdk_device_grab (Some 2), gdk_device_ungrab (Some 3), gdk_device_ungrab (Some 2)]
     \<and> length (filter is_ungrab
     (effects_since (world_of (Some default_store) fs_prefs_dir)
        (snd (the (acquire_hotkey example_platform ''mute_eventbox''
                     [KeyPress \<lparr>ev_hardware_keycode = 0x61, ev_state = 0, ev_group = 0,
                                ev_device = 3\<rparr>,
                      KeyRelease \<lparr>ev_hardware_keycode = 0x61, ev_state = 0, ev_group = 0,
                                  ev_device = 3\<rparr>]
                     (example_data, world_of (Some default_store) fs_prefs_dir)))))) = 2"
    by (auto simp: g u dev is_ungrab_def)
  from capture_commit [OF wn granted, of "example_platform\<lparr>WITH_GTK3 := False\<rparr>"
      "[\<lparr>ev_hardware_keycode = 0x61, ev_state = 0, ev_group = 0, ev_device = 3\<rparr>]"
      "\<lparr>ev_hardware_keycode = 0x61, ev_state = 0, ev_group = 0, ev_device = 3\<rparr>" "[]"
      example_data]
  have gtk2: "filter is_ungrab
       (effects_since (world_of (Some default_store) fs_prefs_dir)
          (snd (the (acquire_hotkey (example_platform\<lparr>WITH_GTK3 := False\<rparr>) ''mute_eventbox''
                       [KeyPress \<lparr>ev_hardware_keycode = 0x61, ev_state = 0, ev_group = 0,
                                  ev_device = 3\<rparr>,
                        KeyRelease \<lparr>ev_hardware_keycode = 0x61, ev_state = 0, ev_group = 0,
                                    ev_device = 3\<rparr>]
                       (example_data, world_of (Some default_store) fs_prefs_dir)))))
     = [gdk_keyboard_ungrab, gdk_keyboard_ungrab]"
    by (auto simp: g u dev is_ungrab_def)
  from gtk3 gtk2 show ?thesis by blast
qed

text \<open>
  C7. While the dialog listens, every key press puts into the candidate label the text
  \<^verbatim>\<open>gtk_accelerator_name\<close> gives for the key value the keymap translates the pressed key
  to and for the modifiers of the event that the translation did not consume and that are
  in the default modifier mask. When the capture is committed, the hotkey label of the
  action receives the candidate of the last key press, except that a candidate which
  \<^verbatim>\<open>strcasecmp\<close> finds equal to \<^verbatim>\<open><Primary>c\<close>, the name of Control+C, is replaced by
  \<^verbatim>\<open>(None)\<close>.
\<close>

theorem capture_stages_candidate:
  assumes "widget_name \<in> {''mute_eventbox'', ''up_eventbox'', ''down_eventbox''}"
    and "grab_succeeds w"
  shows
    "(let (keyval, consumed) =
            keymap_translate_keyboard_state X (ev_hardware_keycode ev) (ev_state ev)
              (ev_group ev);
          candidate =
            accelerator_name X keyval
              ((ev_state ev AND NOT consumed) AND accelerator_get_default_mod_mask X)
      in hotkey_key_label (fst (hotkey_pressed X ev (data0, w0))) = candidate
         \<and> effects_since w0 (snd (hotkey_pressed X ev (data0, w0)))
             = [gtk_label_set_text ''hotkey_key_label'' candidate]
         \<and> (\<exists>data' w'.
               acquire_hotkey X widget_name
                 (map KeyPress ps @ KeyPress ev # KeyRelease r # rest) (data, w)
                 = Some (data', w')
               \<and> hotkey_label widget_name data'
                   = (if strcasecmp_eq candidate ''<Primary>c'' then ''(None)''
                      else candidate)
               \<and> gtk_label_set_text (hotkey_label_name widget_name)
                    (if strcasecmp_eq candidate ''<Primary>c'' then ''(None)'' else candidate)
                   \<in> set (effects_since w w')))"
proof -
  from capture_commit [OF assms, of X "ps @ [ev]" r rest data]
  obtain data' w' where
    run: "acquire_hotkey X widget_name
            (map KeyPress ps @ KeyPress ev # KeyRelease r # rest) (data, w) = Some (data', w')"
    and lab: "hotkey_label widget_name data' = staged_text (key_text X ev)"
    and eff: "gtk_label_set_text (hotkey_label_name widget_name) (staged_text (key_text X ev))
                \<in> set (effects_since w w')"
    by (auto simp: candidate_after_def)
  have press: "hotkey_key_label (fst (hotkey_pressed X ev (data0, w0))) = key_text X ev"
    "effects_since w0 (snd (hotkey_pressed X ev (data0, w0)))
       = [gtk_label_set_text ''hotkey_key_label'' (key_text X ev)]"
    by (simp_all add: hotkey_pressed_def effects_since_def emit_def)
  from run lab eff press show ?thesis
    by (simp add: Let_def staged_text_def key_text_eq case_prod_beta)
qed

theorem capture_stages_candidate_witness:
  "hotkey_label ''mute_eventbox''
     (fst (the (acquire_hotkey example_platform ''mute_eventbox''
                  [KeyPress \<lparr>ev_hardware_keycode = 0x61, ev_state = 0, ev_group = 0,
                             ev_device = 3\<rparr>,
                   KeyPress \<lparr>ev_hardware_keycode = 0x63, ev_state = 0x15, ev_group = 0,
                             ev_device = 3\<rparr>,
                   KeyRelease \<lparr>ev_hardware_keycode = 0x63, ev_state = 0x15, ev_group = 0,
                               ev_device = 3\<rparr>]
                  (example_data, world_of (Some default_store) fs_prefs_dir))))
     = ''(None)''
   \<and> hotkey_label ''down_eventbox''
     (fst (the (acquire_hotkey example_platform ''down_eventbox''
                  [KeyPress \<lparr>ev_hardware_keycode = 0x61, ev_state = 0x19, ev_group = 0,
                             ev_device = 3\<rparr>,
                   KeyRelease \<lparr>ev_hardware_keycode = 0x61, ev_state = 0x19, ev_group = 0,
                               ev_device = 3\<rparr>]
                  (example_data, world_of (Some default_store) fs_prefs_dir))))
     = ''<Alt>A''"
proof -
  have granted: "grab_succeeds (world_of (Some default_store) fs_prefs_dir)"
    by (simp add: world_of_def)
  have m: "''mute_eventbox'' \<in> {''mute_eventbox'', ''up_eventbox'', ''down_eventbox''}"
    by simp
  have d: "''down_eventbox'' \<in> {''mute_eventbox'', ''up_eventbox'', ''down_eventbox''}"
    by simp
  have km: "keymap_translate_keyboard_state example_platform 0x63 0x15 0 = (0x43, 1)"
    "keymap_translate_keyboard_state example_platform 0x61 0x19 0 = (0x41, 1)"
    by (simp_all add: example_platform_def)
  have mask: "accelerator_get_default_mod_mask example_platform = 0x1C00000D"
    by (simp add: example_platform_def)
  have nm: "accelerator_name example_platform 0x43 4 = ''<Primary>C''"
    "accelerator_name example_platform 0x41 8 = ''<Alt>A''"
    by (simp_all add: example_platform_def example_accelerator_name_def char_of_letters)
  have eq: "strcasecmp_eq ''<Primary>C'' ''<Primary>c''"
    "\<not> strcasecmp_eq ''<Alt>A'' ''<Primary>c''"
    by code_simp+
  from capture_stages_candidate [OF m granted,
      of example_platform
        "\<lparr>ev_hardware_keycode = 0x63, ev_state = 0x15, ev_group = 0, ev_device = 3\<rparr>"
        example_data "world_of (Some default_store) fs_prefs_dir"
        "[\<lparr>ev_hardware_keycode = 0x61, ev_state = 0, ev_group = 0, ev_device = 3\<rparr>]"
        "\<lparr>ev_hardware_keycode = 0x63, ev_state = 0x15, ev_group = 0, ev_device = 3\<rparr>" "[]"
        example_data]
  have one: "hotkey_label ''mute_eventbox''
     (fst (the (acquire_hotkey example_platform ''mute_eventbox''
                  [KeyPress \<lparr>ev_hardware_keycode = 0x61, ev_state = 0, ev_group = 0,
                             ev_device = 3\<rparr>,
                   KeyPress \<lparr>ev_hardware_keycode = 0x63, ev_state = 0x15, ev_group = 0,
                             ev_device = 3\<rparr>,
                   KeyRelease \<lparr>ev_hardware_keycode = 0x63, ev_state = 0x15, ev_group = 0,
                               ev_device = 3\<rparr>]
                  (example_data, world_of (Some default_store) fs_prefs_dir))))
     = ''(None)''"
    by (auto simp: Let_def km mask nm eq)
  from capture_stages_candidate [OF d granted,
      of example_platform
        "\<lparr>ev_hardware_keycode = 0x61, ev_state = 0x19, ev_group = 0, ev_device = 3\<rparr>"
        example_data "world_of (Some default_store) fs_prefs_dir"
        "[]"
        "\<lparr>ev_hardware_keycode = 0x61, ev_state = 0x19, ev_group = 0, ev_device = 3\<rparr>" "[]"
        example_data]
  have two: "hotkey_label ''down_eventbox''
     (fst (the (acquire_hotkey example_platform ''down_eventbox''
                  [KeyPress \<lparr>ev_hardware_keycode = 0x61, ev_state = 0x19, ev_group = 0,
                             ev_device = 3\<rparr>,
                   KeyRelease \<lparr>ev_hardware_keycode = 0x61, ev_state = 0x19, ev_group = 0,
                               ev_device = 3\<rparr>]
                  (example_data, world_of (Some default_store) fs_prefs_dir))))
     = ''<Alt>A''"
    by (auto simp: Let_def km mask nm eq)
  show ?thesis by (rule conjI [OF one two])
qed

section \<open>The text form reads back\<close>

















section \<open>The typed values read back\<close>






























section \<open>Setters keep a store clean\<close>







section \<open>Saving, then loading\<close>


lemma butlast_config_filename: "butlast (config_filename w) = user_config_dir w @ [''pnmixer'']"
  by (simp add: config_filename_def butlast_append)

lemma prefs_save_ok:
  assumes "keyFile w = Some kf"
    and "nodes (fs w) (user_config_dir w @ [''pnmixer'']) = Some Directory"
    and "writable (fs w) (user_config_dir w @ [''pnmixer''])"
    and "nodes (fs w) (config_filename w) \<noteq> Some Directory"
  shows "prefs_save w =
           w\<lparr>fs := (fs w)\<lparr>nodes := (nodes (fs w))
                  (config_filename w \<mapsto> RegularFile (g_key_file_to_data kf))\<rparr>\<rparr>"
  using assms
  by (simp add: prefs_save_def Let_def g_file_set_contents_def butlast_config_filename)

lemma prefs_save_failed:
  assumes "keyFile w = Some kf"
    and "\<not> (nodes (fs w) (user_config_dir w @ [''pnmixer'']) = Some Directory
            \<and> writable (fs w) (user_config_dir w @ [''pnmixer''])
            \<and> nodes (fs w) (config_filename w) \<noteq> Some Directory)"
  shows "prefs_save w = emit (report_error ''Couldn't write preferences file'') w"
  using assms
  by (auto simp: prefs_save_def Let_def g_file_set_contents_def butlast_config_filename)






section \<open>Saving and loading\<close>

text \<open>
  C6, as the code has it. \<^verbatim>\<open>prefs_save\<close> writes the text of the whole store over the
  configuration file when the directory \<^verbatim>\<open>pnmixer\<close> is there and writable (and the file
  name is not taken by a directory): afterwards the file holds exactly
  \<^verbatim>\<open>g_key_file_to_data\<close> of the store and nothing else has changed. In every other case of
  a loaded store it reports the error and changes neither the files nor the store. It never
  makes a directory. Making the directory is the work of \<^verbatim>\<open>prefs_ensure_save_dir\<close>, a
  function of its own: where the directory is missing and can be made it makes it; where
  it cannot, it reports the error and returns. The store is the same after both functions.
\<close>

theorem prefs_save_replaces_file:
  "(g_file_test_IS_DIR (fs (prefs_save w)) p \<longleftrightarrow> g_file_test_IS_DIR (fs w) p)
   \<and> keyFile (prefs_save w) = keyFile w
   \<and> (keyFile w = Some kf
        \<and> nodes (fs w) (user_config_dir w @ [''pnmixer'']) = Some Directory
        \<and> writable (fs w) (user_config_dir w @ [''pnmixer''])
        \<and> nodes (fs w) (config_filename w) \<noteq> Some Directory
      \<longrightarrow> nodes (fs (prefs_save w))
            = (nodes (fs w))(config_filename w \<mapsto> RegularFile (g_key_file_to_data kf))
          \<and> trace (prefs_save w) = trace w)
   \<and> (keyFile w = Some kf
        \<and> \<not> (nodes (fs w) (user_config_dir w @ [''pnmixer'']) = Some Directory
              \<and> writable (fs w) (user_config_dir w @ [''pnmixer''])
              \<and> nodes (fs w) (config_filename w) \<noteq> Some Directory)
      \<longrightarrow> fs (prefs_save w) = fs w
          \<and> trace (prefs_save w) = trace w @ [report_error ''Couldn't write preferences file''])
   \<and> keyFile (prefs_ensure_save_dir w) = keyFile w
   \<and> (nodes (fs w) (user_config_dir w @ [''pnmixer'']) = None
        \<and> nodes (fs w) (user_config_dir w) = Some Directory \<and> writable (fs w) (user_config_dir w)
      \<longrightarrow> g_file_test_IS_DIR (fs (prefs_ensure_save_dir w)) (user_config_dir w @ [''pnmixer''])
          \<and> trace (prefs_ensure_save_dir w) = trace w)
   \<and> (nodes (fs w) (user_config_dir w @ [''pnmixer'']) = None
        \<and> \<not> (nodes (fs w) (user_config_dir w) = Some Directory \<and> writable (fs w) (user_config_dir w))
      \<longrightarrow> fs (prefs_ensure_save_dir w) = fs w
          \<and> trace (prefs_ensure_save_dir w)
              = trace w @ [report_error ''Couldn't make prefs directory''])"
proof -
  have dirs: "g_file_test_IS_DIR (fs (prefs_save w)) p \<longleftrightarrow> g_file_test_IS_DIR (fs w) p"
    by (auto simp: prefs_save_def Let_def g_file_set_contents_def g_file_test_IS_DIR_def
        split: option.splits if_splits)
  have ok: "nodes (fs (prefs_save w))
              = (nodes (fs w))(config_filename w \<mapsto> RegularFile (g_key_file_to_data kf))
            \<and> trace (prefs_save w) = trace w"
    if "keyFile w = Some kf"
      and "nodes (fs w) (user_config_dir w @ [''pnmixer'']) = Some Directory"
      and "writable (fs w) (user_config_dir w @ [''pnmixer''])"
      and "nodes (fs w) (config_filename w) \<noteq> Some Directory"
    by (simp add: prefs_save_ok [OF that])
  have failed: "fs (prefs_save w) = fs w
            \<and> trace (prefs_save w) = trace w @ [report_error ''Couldn't write preferences file'']"
    if "keyFile w = Some kf"
      and "\<not> (nodes (fs w) (user_config_dir w @ [''pnmixer'']) = Some Directory
              \<and> writable (fs w) (user_config_dir w @ [''pnmixer''])
              \<and> nodes (fs w) (config_filename w) \<noteq> Some Directory)"
    by (simp add: prefs_save_failed [OF that])
  have store: "keyFile (prefs_ensure_save_dir w) = keyFile w"
    by (simp add: prefs_ensure_save_dir_def Let_def split: sum.split)
  have made: "g_file_test_IS_DIR (fs (prefs_ensure_save_dir w)) (user_config_dir w @ [''pnmixer''])
            \<and> trace (prefs_ensure_save_dir w) = trace w"
    if "nodes (fs w) (user_config_dir w @ [''pnmixer'']) = None"
      and "nodes (fs w) (user_config_dir w) = Some Directory"
      and "writable (fs w) (user_config_dir w)"
    using that
    by (simp add: prefs_ensure_save_dir_def Let_def g_file_test_IS_DIR_def
        g_file_test_EXISTS_def g_mkdir_def)
  have not_made: "fs (prefs_ensure_save_dir w) = fs w
            \<and> trace (prefs_ensure_save_dir w)
                = trace w @ [report_error ''Couldn't make prefs directory'']"
    if "nodes (fs w) (user_config_dir w @ [''pnmixer'']) = None"
      and "\<not> (nodes (fs w) (user_config_dir w) = Some Directory \<and> writable (fs w) (user_config_dir w))"
    using that
    by (auto simp: prefs_ensure_save_dir_def Let_def g_file_test_IS_DIR_def
        g_file_test_EXISTS_def g_mkdir_def)
  from dirs ok failed store made not_made show ?thesis
    by (intro conjI impI) (simp_all del: fun_upd_apply)
qed

theorem prefs_save_replaces_file_witness:
  "nodes (fs (prefs_save (world_of (Some default_store) fs_prefs_dir)))
       [''home'', ''.config'', ''pnmixer'', ''config'']
     = Some (RegularFile (g_key_file_to_data default_store))
   \<and> fs (prefs_save (world_of (Some default_store) fs_no_prefs_dir)) = fs_no_prefs_dir
   \<and> trace (prefs_save (world_of (Some default_store) fs_no_prefs_dir))
       = [report_error ''Couldn't write preferences file'']
   \<and> g_file_test_IS_DIR (fs (prefs_ensure_save_dir (world_of (Some default_store) fs_no_prefs_dir)))
       [''home'', ''.config'', ''pnmixer'']"
proof -
  note t1 = prefs_save_replaces_file
    [where w = "world_of (Some default_store) fs_prefs_dir" and kf = default_store]
  note t2 = prefs_save_replaces_file
    [where w = "world_of (Some default_store) fs_no_prefs_dir" and kf = default_store]
  have a: "nodes (fs (prefs_save (world_of (Some default_store) fs_prefs_dir)))
       [''home'', ''.config'', ''pnmixer'', ''config'']
     = Some (RegularFile (g_key_file_to_data default_store))"
    using t1 by (simp add: world_of_def fs_prefs_dir_def config_filename_def)
  have b: "fs (prefs_save (world_of (Some default_store) fs_no_prefs_dir)) = fs_no_prefs_dir
   \<and> trace (prefs_save (world_of (Some default_store) fs_no_prefs_dir))
       = [report_error ''Couldn't write preferences file'']"
    using t2 by (simp add: world_of_def fs_no_prefs_dir_def config_filename_def)
  have c: "g_file_test_IS_DIR (fs (prefs_ensure_save_dir (world_of (Some default_store) fs_no_prefs_dir)))
       [''home'', ''.config'', ''pnmixer'']"
    using t2 by (simp add: world_of_def fs_no_prefs_dir_def config_filename_def)
  from a b c show ?thesis by simp
qed

text \<open>
  The claim as stated fails where the directory is missing: \<^verbatim>\<open>prefs_save\<close> on its own
  does not create it. It reports the failed write and leaves \<^verbatim>\<open>/home/.config\<close> without
  \<^verbatim>\<open>pnmixer\<close> and without a configuration file.
\<close>

theorem prefs_save_counterexample:
  "nodes (fs (prefs_save (world_of (Some default_store) fs_no_prefs_dir)))
       [''home'', ''.config'', ''pnmixer''] = None
   \<and> nodes (fs (prefs_save (world_of (Some default_store) fs_no_prefs_dir)))
       [''home'', ''.config'', ''pnmixer'', ''config''] = None
   \<and> trace (prefs_save (world_of (Some default_store) fs_no_prefs_dir))
       = [report_error ''Couldn't write preferences file'']"
proof -
  have "prefs_save (world_of (Some default_store) fs_no_prefs_dir)
          = emit (report_error ''Couldn't write preferences file'')
              (world_of (Some default_store) fs_no_prefs_dir)"
    by (rule prefs_save_failed [where kf = default_store])
       (simp_all add: world_of_def fs_no_prefs_dir_def)
  then show ?thesis by (simp add: world_of_def fs_no_prefs_dir_def)
qed




end
